theory Spec2Isabelle
  imports Main "HOL-Library.Word"
begin

unbundle bit_operations_syntax

section \<open>Machine types\<close>

text \<open>
  Go's \<^verbatim>\<open>byte\<close>/\<^verbatim>\<open>uint8\<close> and \<^verbatim>\<open>uint16\<close> are fixed-width words: addition wraps,
  shifts drop the bits that leave the word.  Go's \<^verbatim>\<open>int\<close> (lengths, counts, indices) is
  modelled by \<open>nat\<close> or \<open>int\<close>; no length in this program comes near 64 bits.  A
  \<^verbatim>\<open>[]byte\<close> is a list of bytes, and a Go \<^verbatim>\<open>string\<close> is the same list (the conversions
  \<^verbatim>\<open>string(b)\<close> and \<^verbatim>\<open>[]byte(s)\<close> copy the bytes unchanged).
\<close>

type_synonym byte = "8 word"
type_synonym uint16 = "16 word"

section \<open>Longitudinal redundancy check (type \<^verbatim>\<open>lrc\<close>)\<close>

record lrc =
  lrc_sum :: byte

definition lrc_reset :: "lrc \<Rightarrow> lrc" where
  "lrc_reset l = l\<lparr>lrc_sum := 0\<rparr>"

definition lrc_pushByte :: "lrc \<Rightarrow> byte \<Rightarrow> lrc" where
  "lrc_pushByte l b = l\<lparr>lrc_sum := lrc_sum l + b\<rparr>"

text \<open>\<^verbatim>\<open>for _, b = range data { lrc.sum += b }\<close>\<close>

fun lrc_pushBytes :: "lrc \<Rightarrow> byte list \<Rightarrow> lrc" where
  "lrc_pushBytes l [] = l"
| "lrc_pushBytes l (b # data) = lrc_pushBytes (l\<lparr>lrc_sum := lrc_sum l + b\<rparr>) data"

text \<open>
  \<^verbatim>\<open>uint8(-int8(lrc.sum))\<close>: the conversion to \<^verbatim>\<open>int8\<close> reads the byte as two's
  complement (\<open>sint\<close>), the negation wraps inside \<^verbatim>\<open>int8\<close>, and the conversion back to
  \<^verbatim>\<open>uint8\<close> keeps the low eight bits; \<open>word_of_int\<close> does both reductions at once.
\<close>

definition lrc_value :: "lrc \<Rightarrow> byte" where
  "lrc_value l = word_of_int (- sint (lrc_sum l))"

text \<open>
  A sequence of calls on one accumulator, to speak about every way of splitting a byte
  sequence into \<^verbatim>\<open>pushByte\<close> and \<^verbatim>\<open>pushBytes\<close> calls.
\<close>

datatype lrc_call = PushByte byte | PushBytes "byte list"

fun lrc_call_apply :: "lrc \<Rightarrow> lrc_call \<Rightarrow> lrc" where
  "lrc_call_apply l (PushByte b) = lrc_pushByte l b"
| "lrc_call_apply l (PushBytes data) = lrc_pushBytes l data"

fun lrc_call_bytes :: "lrc_call \<Rightarrow> byte list" where
  "lrc_call_bytes (PushByte b) = [b]"
| "lrc_call_bytes (PushBytes data) = data"

definition lrc_run :: "lrc \<Rightarrow> lrc_call list \<Rightarrow> lrc" where
  "lrc_run l calls = foldl lrc_call_apply (lrc_reset l) calls"

text \<open>
  The checksum as the specification words it: sum the bytes, reduce modulo 256, take the
  two's complement in eight bits.
\<close>

definition sum_then_twos_complement :: "byte list \<Rightarrow> nat" where
  "sum_then_twos_complement bs = (256 - sum_list (map unat bs) mod 256) mod 256"

section \<open>Protocol data\<close>

text \<open>
  Modelled from the spec: the declaration of \<^verbatim>\<open>ModbusError\<close> is in a file of the repository
  that is not under src/.  The specification gives it two one-byte fields, the function
  code reported back and the exception code; \<^verbatim>\<open>responseError\<close> (src/ascii.go) writes
  exactly these two fields.
\<close>

record ModbusError =
  FunctionCode :: byte
  ExceptionCode :: byte

text \<open>
  Modelled from the spec: the declaration of \<^verbatim>\<open>ProtocolDataUnit\<close> is in a file of the
  repository that is not under src/.  The specification gives it a one-byte function code
  and a byte sequence of data; the source reads and writes the fields \<^verbatim>\<open>FunctionCode\<close> and
  \<^verbatim>\<open>Data\<close>.
\<close>

record ProtocolDataUnit =
  FunctionCode :: byte
  Data :: "byte list"

text \<open>
  Errors as values.  Each \<^verbatim>\<open>fmt.Errorf\<close> of the source is one constructor that carries the
  values the message prints; \<open>InvalidByteError\<close> and \<open>ErrLength\<close> are the errors of Go's
  \<^verbatim>\<open>encoding/hex\<close>; \<open>ErrTransport\<close> is any error a transport returns; \<open>ErrModbus\<close> wraps
  the \<^verbatim>\<open>*ModbusError\<close> returned as an \<^verbatim>\<open>error\<close>.  \<open>Panic\<close> is not a returned error: it
  stands for a Go run-time panic (index or slice bounds out of range).  \<open>BeyondLength\<close> is
  not a returned error either: it marks a slice expression with an explicit upper bound
  that lies beyond the length of the slice.  Go bounds such an expression by the capacity:
  without spare capacity it panics, with spare capacity it reads elements of the backing
  array that are outside the slice.  A list has no backing array, so there the model stops
  and says so, without calling the outcome a panic.
\<close>

datatype error =
    InvalidByteError byte
  | ErrLength
  | ErrResponseLength nat nat
  | ErrResponseLengthNotEven nat
  | ErrFrameStart "byte list" "byte list"
  | ErrFrameEnd "byte list" "byte list"
  | ErrSlaveID byte byte
  | ErrLRC byte byte
  | ErrQuantity nat nat nat
  | ErrQuantityCoils nat nat nat
  | ErrQuantityToRead nat nat nat
  | ErrQuantityToWrite nat nat nat
  | ErrDataSizeCount nat nat
  | ErrDataSizeExpected nat nat
  | ErrDataSizeLess nat nat
  | ErrAddress uint16 uint16
  | ErrValue uint16 uint16
  | ErrQuantityEcho uint16 uint16
  | ErrFifoCount nat nat
  | ErrInvalidLengthOfWords nat
  | ErrEmptyResponse
  | ErrModbus ModbusError
  | ErrTransport nat
  | Panic
  | BeyondLength

text \<open>
  The taxonomy of the specification (section 7), as a classification of the errors above.
\<close>

datatype error_kind =
  ArgumentError | TransportError | FramingError | ProtocolException | RuntimePanic
  | OutsideModel

fun kind_of :: "error \<Rightarrow> error_kind" where
  "kind_of (ErrQuantity q lo hi) = ArgumentError"
| "kind_of (ErrQuantityCoils q lo hi) = ArgumentError"
| "kind_of (ErrQuantityToRead q lo hi) = ArgumentError"
| "kind_of (ErrQuantityToWrite q lo hi) = ArgumentError"
| "kind_of (ErrInvalidLengthOfWords l) = ArgumentError"
| "kind_of (ErrTransport e) = TransportError"
| "kind_of (ErrModbus e) = ProtocolException"
| "kind_of Panic = RuntimePanic"
| "kind_of BeyondLength = OutsideModel"
| "kind_of e = FramingError"

text \<open>
  Modelled from the spec: the function-code constants are declared in a file of the
  repository that is not under src/.  The values are those of the request layouts written
  in the comments above each operation in src/ascii.go.
\<close>

definition FuncCodeReadDiscreteInputs :: byte where "FuncCodeReadDiscreteInputs = 0x02"
definition FuncCodeReadCoils :: byte where "FuncCodeReadCoils = 0x01"
definition FuncCodeWriteSingleCoil :: byte where "FuncCodeWriteSingleCoil = 0x05"
definition FuncCodeWriteMultipleCoils :: byte where "FuncCodeWriteMultipleCoils = 0x0F"
definition FuncCodeReadHoldingRegisters :: byte where "FuncCodeReadHoldingRegisters = 0x03"
definition FuncCodeReadInputRegisters :: byte where "FuncCodeReadInputRegisters = 0x04"
definition FuncCodeWriteMultipleRegisters :: byte where "FuncCodeWriteMultipleRegisters = 0x10"
definition FuncCodeReadWriteMultipleRegisters :: byte where
  "FuncCodeReadWriteMultipleRegisters = 0x17"
definition FuncCodeReadFIFOQueue :: byte where "FuncCodeReadFIFOQueue = 0x18"

section \<open>The transport and packager interfaces\<close>

text \<open>
  \<^verbatim>\<open>Transporter\<close> (src/unnamed/part_006) is an interface over a mutable connection.  The
  state of the connection is a value of type \<open>'t\<close> that every call takes and returns; the
  interface is the record of its methods.  \<^verbatim>\<open>Read(p)\<close> gets the length of the buffer \<open>p\<close>
  and returns the bytes it stored there (their number is Go's \<open>n\<close>).  \<^verbatim>\<open>Close\<close> and
  \<^verbatim>\<open>Flush\<close> are called by none of the functions modelled here and are left out.  A duration
  is its number of nanoseconds.
\<close>

record 't Transporter =
  Connect :: "'t \<Rightarrow> error option \<times> 't"
  Read :: "nat \<Rightarrow> 't \<Rightarrow> (error + byte list) \<times> 't"
  Write :: "byte list \<Rightarrow> 't \<Rightarrow> (error + nat) \<times> 't"
  SetReadTimeout :: "int \<Rightarrow> 't \<Rightarrow> error option \<times> 't"

text \<open>
  Modelled from the spec: the declaration of the \<^verbatim>\<open>Packager\<close> interface is in a file of the
  repository that is not under src/.  Its four methods are those \<^verbatim>\<open>ClientHandler.transceive\<close>
  calls and \<^verbatim>\<open>ASCIIPackager\<close> implements: encode, verify, decode and the framing-aware
  exchange with the transport.
\<close>

record 't Packager =
  Encode :: "byte \<Rightarrow> ProtocolDataUnit \<Rightarrow> error + byte list"
  Verify :: "byte list \<Rightarrow> byte list \<Rightarrow> error option"
  Decode :: "byte list \<Rightarrow> error + ProtocolDataUnit"
  transceive :: "'t Transporter \<Rightarrow> byte list \<Rightarrow> int \<Rightarrow> 't \<Rightarrow> (error + byte list) \<times> 't"

text \<open>
  \<^verbatim>\<open>ClientHandler\<close>.  The logger only receives formatted copies of the frames and its result
  is discarded; the mutex serialises concurrent callers.  Neither changes what a single
  call computes, and both are left out of this sequential model.
\<close>

record 't ClientHandler =
  Packager :: "'t Packager"
  Transporter :: "'t Transporter"
  SlaveID :: byte
  Timeout :: int

section \<open>Go's \<^verbatim>\<open>encoding/binary\<close> and \<^verbatim>\<open>encoding/hex\<close>\<close>

text \<open>
  \<^verbatim>\<open>binary.BigEndian.PutUint16(b[off:], v)\<close> stores the high byte at \<open>off\<close> and the low byte
  at \<open>off + 1\<close>; \<^verbatim>\<open>binary.BigEndian.Uint16(b)\<close> reads them back.  Both need two bytes.  Every
  call in the source is on a buffer that has them (a buffer just made of the right size, or
  a slice whose length was checked on the line before), so the indices below are in range.
\<close>

definition BigEndian_PutUint16 :: "byte list \<Rightarrow> nat \<Rightarrow> uint16 \<Rightarrow> byte list" where
  "BigEndian_PutUint16 b off v = (b[off := ucast (drop_bit 8 v)])[off + 1 := ucast v]"

definition BigEndian_Uint16 :: "byte list \<Rightarrow> uint16" where
  "BigEndian_Uint16 b = ucast (b ! 1) OR push_bit 8 (ucast (b ! 0))"

text \<open>
  \<^verbatim>\<open>hex.Decode\<close> of the Go standard library: two characters per byte, either case; the first
  character that is not a hexadecimal digit is an \<^verbatim>\<open>InvalidByteError\<close>, and an odd length is
  \<^verbatim>\<open>ErrLength\<close> once every pair before the last character has decoded.
\<close>

definition fromHexChar :: "byte \<Rightarrow> byte" where
  "fromHexChar c =
     (if 0x30 \<le> c \<and> c \<le> 0x39 then c - 0x30
      else if 0x61 \<le> c \<and> c \<le> 0x66 then c - 0x61 + 10
      else if 0x41 \<le> c \<and> c \<le> 0x46 then c - 0x41 + 10
      else 0xFF)"

fun hex_Decode :: "byte list \<Rightarrow> error + byte list" where
  "hex_Decode [] = Inr []"
| "hex_Decode [p] = (if fromHexChar p > 0x0F then Inl (InvalidByteError p) else Inl ErrLength)"
| "hex_Decode (p # q # src) =
     (let a = fromHexChar p; b = fromHexChar q in
      if a > 0x0F then Inl (InvalidByteError p)
      else if b > 0x0F then Inl (InvalidByteError q)
      else case hex_Decode src of
             Inl err \<Rightarrow> Inl err
           | Inr dst \<Rightarrow> Inr ((push_bit 4 a OR b) # dst))"

section \<open>The ASCII packager\<close>

definition bytes_of :: "string \<Rightarrow> byte list" where
  "bytes_of s = map of_char s"

definition asciiStart :: "byte list" where
  "asciiStart = bytes_of '':''"

definition asciiEnd :: "byte list" where
  "asciiEnd = bytes_of [CHR 0x0D, CHR 0x0A]"

definition asciiMinSize :: nat where
  "asciiMinSize = 3"

definition asciiMaxSize :: nat where
  "asciiMaxSize = 513"

definition hexTable :: "byte list" where
  "hexTable = bytes_of ''0123456789ABCDEF''"

text \<open>
  \<^verbatim>\<open>writeHex\<close> appends two characters of \<^verbatim>\<open>hexTable\<close> per byte.  The indices \<^verbatim>\<open>v>>4\<close> and
  \<^verbatim>\<open>v&0x0F\<close> are below 16, the length of the table.  Writing to a \<^verbatim>\<open>bytes.Buffer\<close> returns
  no error, so the buffer is the only result.
\<close>

fun writeHex :: "byte list \<Rightarrow> byte list \<Rightarrow> byte list" where
  "writeHex buf [] = buf"
| "writeHex buf (v # vs) =
     writeHex (buf @ [hexTable ! unat (drop_bit 4 v), hexTable ! unat (v AND 0x0F)]) vs"

text \<open>
  \<^verbatim>\<open>readHex\<close> decodes \<^verbatim>\<open>data[0:2]\<close>.  On a slice of fewer than two elements this expression
  reaches beyond the length, and what Go does depends on the capacity and on the backing
  array: the result is \<open>BeyondLength\<close>.  (The other slice expressions of the packager,
  \<^verbatim>\<open>adu[k:]\<close> and \<^verbatim>\<open>adu[5:dataEnd]\<close>, are bounded by the length whatever the capacity, and
  are panics when out of range.)  No frame that has passed \<^verbatim>\<open>Verify\<close> and no frame made by
  \<^verbatim>\<open>Encode\<close> is that short.
\<close>

definition readHex :: "byte list \<Rightarrow> error + byte" where
  "readHex data =
     (if length data < 2 then Inl BeyondLength
      else case hex_Decode (take 2 data) of
             Inl err \<Rightarrow> Inl err
           | Inr dst \<Rightarrow> Inr (case dst of [] \<Rightarrow> 0 | v # _ \<Rightarrow> v))"

definition ASCIIPackager_Encode :: "byte \<Rightarrow> ProtocolDataUnit \<Rightarrow> error + byte list" where
  "ASCIIPackager_Encode slaveID pdu =
     (let buf = [] @ asciiStart;
          buf = writeHex buf [slaveID, FunctionCode pdu];
          buf = writeHex buf (Data pdu);
          l = lrc_reset \<lparr>lrc_sum = 0\<rparr>;
          l = lrc_pushBytes (lrc_pushByte (lrc_pushByte l slaveID) (FunctionCode pdu)) (Data pdu);
          buf = writeHex buf [lrc_value l];
          buf = buf @ asciiEnd
      in Inr buf)"

definition ASCIIPackager_Verify :: "byte list \<Rightarrow> byte list \<Rightarrow> error option" where
  "ASCIIPackager_Verify aduRequest aduResponse =
     (let len = length aduResponse in
      if len < asciiMinSize + 6 then Some (ErrResponseLength len 9)
      else if len mod 2 \<noteq> 1 then Some (ErrResponseLengthNotEven (len - 1))
      else if take (length asciiStart) aduResponse \<noteq> asciiStart
        then Some (ErrFrameStart (take (length asciiStart) aduResponse) asciiStart)
      else if drop (len - length asciiEnd) aduResponse \<noteq> asciiEnd
        then Some (ErrFrameEnd (drop (len - length asciiEnd) aduResponse) asciiEnd)
      else case readHex (drop 1 aduResponse) of
        Inl err \<Rightarrow> Some err
      | Inr responseVal \<Rightarrow>
     (if length aduRequest < 1 then Some Panic
      else case readHex (drop 1 aduRequest) of
        Inl err \<Rightarrow> Some err
      | Inr requestVal \<Rightarrow>
          if responseVal \<noteq> requestVal then Some (ErrSlaveID responseVal requestVal)
          else None))"

definition ASCIIPackager_Decode :: "byte list \<Rightarrow> error + ProtocolDataUnit" where
  "ASCIIPackager_Decode adu =
     (if length adu < 1 then Inl Panic
      else case readHex (drop 1 adu) of
        Inl err \<Rightarrow> Inl err
      | Inr address \<Rightarrow>
     (if length adu < 3 then Inl Panic
      else case readHex (drop 3 adu) of
        Inl err \<Rightarrow> Inl err
      | Inr functionCode \<Rightarrow>
     (if int (length adu) - 4 < 5 then Inl Panic
      else let dataEnd = length adu - 4;
               data = take (dataEnd - 5) (drop 5 adu) in
      case hex_Decode data of
        Inl err \<Rightarrow> Inl err
      | Inr pduData \<Rightarrow>
     (case readHex (drop dataEnd adu) of
        Inl err \<Rightarrow> Inl err
      | Inr lrcVal \<Rightarrow>
          let l = lrc_reset \<lparr>lrc_sum = 0\<rparr>;
              l = lrc_pushBytes (lrc_pushByte (lrc_pushByte l address) functionCode) pduData
          in if lrcVal \<noteq> lrc_value l then Inl (ErrLRC lrcVal (lrc_value l))
             else Inr \<lparr>FunctionCode = functionCode, Data = pduData\<rparr>))))"

text \<open>
  The read loop of \<^verbatim>\<open>ASCIIPackager.transceive\<close>.  \<open>data\<close> holds the \<^verbatim>\<open>length\<close> bytes received
  so far of the 513-byte array; each \<^verbatim>\<open>Read\<close> is given the rest of the array.  The loop ends
  on a transport error, on an empty read, when the array is full, or when more than three
  bytes have arrived and the last two are CR LF.  A transport that reported more bytes than
  the buffer holds would make \<^verbatim>\<open>data[:length]\<close> panic.  Each further round has received at
  least one byte and the total is below 513, which bounds the number of rounds.
\<close>

function ASCIIPackager_read_loop ::
  "'t Transporter \<Rightarrow> byte list \<Rightarrow> 't \<Rightarrow> (error + byte list) \<times> 't" where
  "ASCIIPackager_read_loop transporter data t =
     (case Read transporter (asciiMaxSize - length data) t of
        (Inl err, t') \<Rightarrow> (Inl err, t')
      | (Inr received, t') \<Rightarrow>
          if length (data @ received) \<ge> asciiMaxSize \<or> length received = 0 then
            (if length (data @ received) > asciiMaxSize then (Inl Panic, t')
             else (Inr (data @ received), t'))
          else if length (data @ received) > asciiMinSize
                  \<and> drop (length (data @ received) - length asciiEnd) (data @ received) = asciiEnd
            then (Inr (data @ received), t')
          else ASCIIPackager_read_loop transporter (data @ received) t')"
  by pat_completeness auto
termination
  by (relation "measure (\<lambda>(transporter, data, t). asciiMaxSize - length data)")
    (auto simp add: neq_Nil_conv)

definition ASCIIPackager_transceive ::
  "'t Transporter \<Rightarrow> byte list \<Rightarrow> int \<Rightarrow> 't \<Rightarrow> (error + byte list) \<times> 't" where
  "ASCIIPackager_transceive transporter aduRequest timeout t =
     (case Connect transporter t of
        (Some err, t1) \<Rightarrow> (Inl err, t1)
      | (None, t1) \<Rightarrow>
     (case (if timeout > 0 then SetReadTimeout transporter timeout t1 else (None, t1)) of
        (Some err, t2) \<Rightarrow> (Inl err, t2)
      | (None, t2) \<Rightarrow>
     (case Write transporter aduRequest t2 of
        (Inl err, t3) \<Rightarrow> (Inl err, t3)
      | (Inr n, t3) \<Rightarrow> ASCIIPackager_read_loop transporter [] t3)))"

definition ASCIIPackager :: "'t Packager" where
  "ASCIIPackager =
     \<lparr>Encode = ASCIIPackager_Encode, Verify = ASCIIPackager_Verify,
      Decode = ASCIIPackager_Decode, transceive = ASCIIPackager_transceive\<rparr>"

section \<open>The client: helpers\<close>

text \<open>
  The loop \<^verbatim>\<open>for i, v := range value { binary.BigEndian.PutUint16(data[i*2:], v) }\<close> of
  \<^verbatim>\<open>dataBlock\<close>, \<^verbatim>\<open>dataBlockSuffix\<close> and \<^verbatim>\<open>wordsToByteArray\<close>, writing through the sub-slice
  into the buffer made before the loop.
\<close>

fun PutUint16_loop :: "byte list \<Rightarrow> nat \<Rightarrow> uint16 list \<Rightarrow> byte list" where
  "PutUint16_loop data i [] = data"
| "PutUint16_loop data i (v # value) =
     PutUint16_loop (BigEndian_PutUint16 data (i * 2) v) (i + 1) value"

definition dataBlock :: "uint16 list \<Rightarrow> byte list" where
  "dataBlock value = PutUint16_loop (replicate (2 * length value) 0) 0 value"

text \<open>
  Go's \<^verbatim>\<open>copy(dst[off:], src)\<close>: as many elements as fit are overwritten in place.
\<close>

definition copy_at :: "byte list \<Rightarrow> nat \<Rightarrow> byte list \<Rightarrow> byte list" where
  "copy_at dst off src =
     take off dst @ take (length dst - off) src @ drop (off + length src) dst"

definition dataBlockSuffix :: "byte list \<Rightarrow> uint16 list \<Rightarrow> byte list" where
  "dataBlockSuffix suffix value =
     (let len = 2 * length value;
          data = replicate (len + 1 + length suffix) 0;
          data = PutUint16_loop data 0 value;
          data = data[len := of_nat (length suffix)]
      in copy_at data (len + 1) suffix)"

text \<open>
  \<^verbatim>\<open>bytesToWordArray\<close>.  \<^verbatim>\<open>math.Ceil(float64(l) / 2)\<close> is exact for every length a slice can
  have, and equals \<open>(l + 1) div 2\<close>.  In the loop \<open>j = 2 * i < l\<close>, so \<^verbatim>\<open>bytes[j]\<close> is in range,
  and \<^verbatim>\<open>bytes[j : j+2]\<close> is taken only when \<open>j + 2 \<le> l\<close>.
\<close>

function bytesToWordArray_loop ::
  "byte list \<Rightarrow> nat \<Rightarrow> nat \<Rightarrow> uint16 list \<Rightarrow> uint16 list" where
  "bytesToWordArray_loop bytes n i array =
     (if i < n then
        (let j = i * 2 in
         if j + 2 > length bytes
         then bytesToWordArray_loop bytes n (i + 1) (array[i := ucast (bytes ! j)])
         else bytesToWordArray_loop bytes n (i + 1)
                (array[i := BigEndian_Uint16 (take 2 (drop j bytes))]))
      else array)"
  by pat_completeness auto
termination
  by (relation "measure (\<lambda>(bytes, n, i, array). n - i)") auto

definition bytesToWordArray :: "byte list \<Rightarrow> uint16 list" where
  "bytesToWordArray bytes =
     (let l = length bytes;
          n = (l + 1) div 2
      in bytesToWordArray_loop bytes n 0 (replicate n 0))"

definition wordsToByteArray :: "uint16 list \<Rightarrow> byte list" where
  "wordsToByteArray words = PutUint16_loop (replicate (2 * length words) 0) 0 words"

fun filter_loop :: "(byte \<Rightarrow> bool) \<Rightarrow> byte list \<Rightarrow> byte list \<Rightarrow> byte list" where
  "filter_loop fn p [] = p"
| "filter_loop fn p (v # s) = filter_loop fn (if fn v then p @ [v] else p) s"

definition filter_bytes :: "byte list \<Rightarrow> (byte \<Rightarrow> bool) \<Rightarrow> byte list" where
  "filter_bytes s fn = filter_loop fn [] s"

definition filterNullChar :: "byte list \<Rightarrow> byte list" where
  "filterNullChar a = filter_bytes a (\<lambda>c. c \<noteq> 0)"

text \<open>
  The two nested loops of \<^verbatim>\<open>ReadCoils\<close> and \<^verbatim>\<open>ReadDiscreteInputs\<close> (the same text in both):
  \<^verbatim>\<open>coils[i*8+j] = (coilStates[i] & (1 << uint(j))) != 0\<close> for \<open>j\<close> from 0 to 7, for \<open>i\<close> from 0
  to \<open>byteCount - 1\<close>.  The slice \<open>coils\<close> has \<open>byteCount * 8\<close> elements and \<open>coilStates\<close> has
  \<open>byteCount\<close>, so both indices are in range.
\<close>

function unpack_bit_loop :: "byte list \<Rightarrow> nat \<Rightarrow> nat \<Rightarrow> bool list \<Rightarrow> bool list" where
  "unpack_bit_loop coilStates i j coils =
     (if j < 8 then
        unpack_bit_loop coilStates i (j + 1)
          (coils[i * 8 + j := (coilStates ! i AND push_bit j 1) \<noteq> 0])
      else coils)"
  by pat_completeness auto
termination
  by (relation "measure (\<lambda>(coilStates, i, j, coils). 8 - j)") auto

function unpack_byte_loop :: "byte list \<Rightarrow> nat \<Rightarrow> nat \<Rightarrow> bool list \<Rightarrow> bool list" where
  "unpack_byte_loop coilStates byteCount i coils =
     (if i < byteCount then
        unpack_byte_loop coilStates byteCount (i + 1) (unpack_bit_loop coilStates i 0 coils)
      else coils)"
  by pat_completeness auto
termination
  by (relation "measure (\<lambda>(coilStates, byteCount, i, coils). byteCount - i)") auto

text \<open>
  The loop of \<^verbatim>\<open>WriteMultipleCoils\<close>: \<^verbatim>\<open>if v { value[i>>3] |= 1 << (uint(i) & 7) }\<close>.
\<close>

fun pack_bit_loop :: "byte list \<Rightarrow> nat \<Rightarrow> bool list \<Rightarrow> byte list" where
  "pack_bit_loop val i [] = val"
| "pack_bit_loop val i (v # coils) =
     pack_bit_loop
       (if v then val[drop_bit 3 i := (val ! drop_bit 3 i) OR push_bit (i AND 7) 1] else val)
       (i + 1) coils"

section \<open>The client: exchange and exception check\<close>

definition responseError :: "ProtocolDataUnit \<Rightarrow> error" where
  "responseError response =
     (let mbError = \<lparr>ModbusError.FunctionCode = FunctionCode response, ExceptionCode = 0\<rparr>
      in if length (Data response) > 0
         then ErrModbus (mbError\<lparr>ExceptionCode := Data response ! 0\<rparr>)
         else ErrModbus mbError)"

definition ClientHandler_transceive ::
  "'t ClientHandler \<Rightarrow> ProtocolDataUnit \<Rightarrow> 't \<Rightarrow> (error + ProtocolDataUnit) \<times> 't" where
  "ClientHandler_transceive c request t =
     (case Encode (Packager c) (SlaveID c) request of
        Inl err \<Rightarrow> (Inl err, t)
      | Inr aduRequest \<Rightarrow>
     (case transceive (Packager c) (Transporter c) aduRequest (Timeout c) t of
        (Inl err, t') \<Rightarrow> (Inl err, t')
      | (Inr aduResponse, t') \<Rightarrow>
     (case Verify (Packager c) aduRequest aduResponse of
        Some err \<Rightarrow> (Inl err, t')
      | None \<Rightarrow>
     (case Decode (Packager c) aduResponse of
        Inl err \<Rightarrow> (Inl err, t')
      | Inr response \<Rightarrow>
          if FunctionCode response \<noteq> FunctionCode request
          then (Inl (responseError response), t')
          else if length (Data response) = 0 then (Inl ErrEmptyResponse, t')
          else (Inr response, t')))))"

section \<open>The client: operations\<close>

text \<open>
  Every operation takes the state of the transport and returns it with its result.  An
  operation that returns only \<^verbatim>\<open>err\<close> returns an \<open>error option\<close>, \<open>None\<close> for \<^verbatim>\<open>nil\<close>.
  \<^verbatim>\<open>response.Data[0]\<close> on an empty payload and \<^verbatim>\<open>coils[0:quantity]\<close> beyond the capacity of
  \<open>coils\<close> are run-time panics.
\<close>

definition ClientHandler_ReadDiscreteInputs ::
  "'t ClientHandler \<Rightarrow> uint16 \<Rightarrow> uint16 \<Rightarrow> 't \<Rightarrow> (error + bool list) \<times> 't" where
  "ClientHandler_ReadDiscreteInputs c address quantity t =
     (if quantity < 1 \<or> quantity > 2000 then (Inl (ErrQuantity (unat quantity) 1 2000), t)
      else
        let request = \<lparr>FunctionCode = FuncCodeReadDiscreteInputs,
                        Data = dataBlock [address, quantity]\<rparr> in
        case ClientHandler_transceive c request t of
          (Inl err, t') \<Rightarrow> (Inl err, t')
        | (Inr response, t') \<Rightarrow>
            if length (Data response) < 1 then (Inl Panic, t')
            else
              let byteCount = unat (Data response ! 0);
                  len = length (Data response) - 1 in
              if byteCount \<noteq> len then (Inl (ErrDataSizeCount len byteCount), t')
              else
                let result = drop 1 (Data response);
                    inputs = replicate (byteCount * 8) False;
                    inputs = unpack_byte_loop result byteCount 0 inputs in
                if unat quantity > length inputs then (Inl Panic, t')
                else (Inr (take (unat quantity) inputs), t'))"

definition ClientHandler_ReadCoils ::
  "'t ClientHandler \<Rightarrow> uint16 \<Rightarrow> uint16 \<Rightarrow> 't \<Rightarrow> (error + bool list) \<times> 't" where
  "ClientHandler_ReadCoils c address quantity t =
     (if quantity < 1 \<or> quantity > 2000 then (Inl (ErrQuantity (unat quantity) 1 2000), t)
      else
        let request = \<lparr>FunctionCode = FuncCodeReadCoils,
                        Data = dataBlock [address, quantity]\<rparr> in
        case ClientHandler_transceive c request t of
          (Inl err, t') \<Rightarrow> (Inl err, t')
        | (Inr response, t') \<Rightarrow>
            if length (Data response) < 1 then (Inl Panic, t')
            else
              let byteCount = unat (Data response ! 0);
                  len = length (Data response) - 1 in
              if byteCount \<noteq> len then (Inl (ErrDataSizeCount len byteCount), t')
              else
                let coilStates = drop 1 (Data response);
                    coils = replicate (byteCount * 8) False;
                    coils = unpack_byte_loop coilStates byteCount 0 coils in
                if unat quantity > length coils then (Inl Panic, t')
                else (Inr (take (unat quantity) coils), t'))"

definition ClientHandler_WriteSingleCoil ::
  "'t ClientHandler \<Rightarrow> uint16 \<Rightarrow> bool \<Rightarrow> 't \<Rightarrow> error option \<times> 't" where
  "ClientHandler_WriteSingleCoil c address coil t =
     (let val = (if coil then 0xFF00 else 0x0000);
          request = \<lparr>FunctionCode = FuncCodeWriteSingleCoil,
                      Data = dataBlock [address, val]\<rparr> in
      case ClientHandler_transceive c request t of
        (Inl err, t') \<Rightarrow> (Some err, t')
      | (Inr response, t') \<Rightarrow>
          if length (Data response) \<noteq> 4
          then (Some (ErrDataSizeExpected (length (Data response)) 4), t')
          else
            let respValue = BigEndian_Uint16 (Data response) in
            if address \<noteq> respValue then (Some (ErrAddress respValue address), t')
            else
              let results = drop 2 (Data response);
                  respValue = BigEndian_Uint16 results in
              if val \<noteq> respValue then (Some (ErrValue respValue val), t')
              else (None, t'))"

definition ClientHandler_WriteMultipleCoils ::
  "'t ClientHandler \<Rightarrow> uint16 \<Rightarrow> bool list \<Rightarrow> 't \<Rightarrow> error option \<times> 't" where
  "ClientHandler_WriteMultipleCoils c address coils t =
     (let count = length coils in
      if count < 1 \<or> count > 1968 then (Some (ErrQuantityCoils count 1 1968), t)
      else
        let quantity = (of_nat count :: uint16);
            byteCount = unat ((quantity + 7) div 8);
            val = replicate byteCount 0;
            val = pack_bit_loop val 0 coils;
            request = \<lparr>FunctionCode = FuncCodeWriteMultipleCoils,
                        Data = dataBlockSuffix val [address, quantity]\<rparr> in
        case ClientHandler_transceive c request t of
          (Inl err, t') \<Rightarrow> (Some err, t')
        | (Inr response, t') \<Rightarrow>
            if length (Data response) \<noteq> 4
            then (Some (ErrDataSizeExpected (length (Data response)) 4), t')
            else
              let respValue = BigEndian_Uint16 (Data response) in
              if address \<noteq> respValue then (Some (ErrAddress respValue address), t')
              else
                let results = drop 2 (Data response);
                    respValue = BigEndian_Uint16 results in
                if quantity \<noteq> respValue then (Some (ErrQuantityEcho respValue quantity), t')
                else (None, t'))"

definition ClientHandler_ReadHoldingRegisters ::
  "'t ClientHandler \<Rightarrow> uint16 \<Rightarrow> uint16 \<Rightarrow> 't \<Rightarrow> (error + uint16 list) \<times> 't" where
  "ClientHandler_ReadHoldingRegisters c address quantity t =
     (if quantity < 1 \<or> quantity > 125 then (Inl (ErrQuantity (unat quantity) 1 125), t)
      else
        let request = \<lparr>FunctionCode = FuncCodeReadHoldingRegisters,
                        Data = dataBlock [address, quantity]\<rparr> in
        case ClientHandler_transceive c request t of
          (Inl err, t') \<Rightarrow> (Inl err, t')
        | (Inr response, t') \<Rightarrow>
            if length (Data response) < 1 then (Inl Panic, t')
            else
              let count = unat (Data response ! 0);
                  len = length (Data response) - 1 in
              if count \<noteq> len then (Inl (ErrDataSizeCount len count), t')
              else (Inr (bytesToWordArray (drop 1 (Data response))), t'))"

definition ClientHandler_ReadInputRegisters ::
  "'t ClientHandler \<Rightarrow> uint16 \<Rightarrow> uint16 \<Rightarrow> 't \<Rightarrow> (error + uint16 list) \<times> 't" where
  "ClientHandler_ReadInputRegisters c address quantity t =
     (if quantity < 1 \<or> quantity > 125 then (Inl (ErrQuantity (unat quantity) 1 125), t)
      else
        let request = \<lparr>FunctionCode = FuncCodeReadInputRegisters,
                        Data = dataBlock [address, quantity]\<rparr> in
        case ClientHandler_transceive c request t of
          (Inl err, t') \<Rightarrow> (Inl err, t')
        | (Inr response, t') \<Rightarrow>
            if length (Data response) < 1 then (Inl Panic, t')
            else
              let count = unat (Data response ! 0);
                  len = length (Data response) - 1 in
              if count \<noteq> len then (Inl (ErrDataSizeCount len count), t')
              else (Inr (bytesToWordArray (drop 1 (Data response))), t'))"

definition ClientHandler_WriteMultipleRegisters ::
  "'t ClientHandler \<Rightarrow> uint16 \<Rightarrow> uint16 list \<Rightarrow> 't \<Rightarrow> error option \<times> 't" where
  "ClientHandler_WriteMultipleRegisters c address vals t =
     (let count = length vals in
      if count < 1 \<or> count > 123 then (Some (ErrQuantity count 1 123), t)
      else
        let quantity = (of_nat count :: uint16);
            request = \<lparr>FunctionCode = FuncCodeWriteMultipleRegisters,
                        Data = dataBlockSuffix (dataBlock vals) [address, quantity]\<rparr> in
        case ClientHandler_transceive c request t of
          (Inl err, t') \<Rightarrow> (Some err, t')
        | (Inr response, t') \<Rightarrow>
            if length (Data response) \<noteq> 4
            then (Some (ErrDataSizeExpected (length (Data response)) 4), t')
            else
              let respValue = BigEndian_Uint16 (Data response) in
              if address \<noteq> respValue then (Some (ErrAddress respValue address), t')
              else
                let results = drop 2 (Data response);
                    respValue = BigEndian_Uint16 results in
                if quantity \<noteq> respValue then (Some (ErrQuantityEcho respValue quantity), t')
                else (None, t'))"

definition ClientHandler_ReadWriteMultipleRegisters ::
  "'t ClientHandler \<Rightarrow> uint16 \<Rightarrow> uint16 \<Rightarrow> uint16 \<Rightarrow> uint16 \<Rightarrow> byte list \<Rightarrow> 't
     \<Rightarrow> (error + uint16 list) \<times> 't" where
  "ClientHandler_ReadWriteMultipleRegisters c readAddress readQuantity writeAddress
       writeQuantity val t =
     (if readQuantity < 1 \<or> readQuantity > 125
      then (Inl (ErrQuantityToRead (unat readQuantity) 1 125), t)
      else if writeQuantity < 1 \<or> writeQuantity > 121
      then (Inl (ErrQuantityToWrite (unat writeQuantity) 1 121), t)
      else
        let request = \<lparr>FunctionCode = FuncCodeReadWriteMultipleRegisters,
                        Data = dataBlockSuffix val
                                 [readAddress, readQuantity, writeAddress, writeQuantity]\<rparr> in
        case ClientHandler_transceive c request t of
          (Inl err, t') \<Rightarrow> (Inl err, t')
        | (Inr response, t') \<Rightarrow>
            if length (Data response) < 1 then (Inl Panic, t')
            else
              let count = unat (Data response ! 0) in
              if count \<noteq> length (Data response) - 1
              then (Inl (ErrDataSizeCount (length (Data response) - 1) count), t')
              else (Inr (bytesToWordArray (drop 1 (Data response))), t'))"

definition ClientHandler_ReadFIFOQueue ::
  "'t ClientHandler \<Rightarrow> uint16 \<Rightarrow> 't \<Rightarrow> (error + uint16 list) \<times> 't" where
  "ClientHandler_ReadFIFOQueue c address t =
     (let request = \<lparr>FunctionCode = FuncCodeReadFIFOQueue, Data = dataBlock [address]\<rparr> in
      case ClientHandler_transceive c request t of
        (Inl err, t') \<Rightarrow> (Inl err, t')
      | (Inr response, t') \<Rightarrow>
          if length (Data response) < 4
          then (Inl (ErrDataSizeLess (length (Data response)) 4), t')
          else
            let count = unat (BigEndian_Uint16 (Data response)) in
            if count \<noteq> length (Data response) - 1
            then (Inl (ErrDataSizeCount (length (Data response) - 1) count), t')
            else
              let count = unat (BigEndian_Uint16 (drop 2 (Data response))) in
              if count > 31 then (Inl (ErrFifoCount count 31), t')
              else (Inr (bytesToWordArray (drop 4 (Data response))), t'))"

section \<open>Register-block views\<close>

text \<open>
  \<^verbatim>\<open>ioStyle\<close>, of which \<^verbatim>\<open>roRegisters\<close> and \<^verbatim>\<open>rwRegisters\<close> are copies.  The master is the
  \<^verbatim>\<open>ClientHandler\<close> (the only implementation of \<^verbatim>\<open>Client\<close>).
\<close>

record 't ioStyle =
  io_master :: "'t ClientHandler"
  io_address :: uint16
  io_count :: uint16

definition roRegisters_Read :: "'t ioStyle \<Rightarrow> 't \<Rightarrow> (error + uint16 list) \<times> 't" where
  "roRegisters_Read io t =
     ClientHandler_ReadInputRegisters (io_master io) (io_address io) (io_count io) t"

definition roRegisters_ReadString :: "'t ioStyle \<Rightarrow> 't \<Rightarrow> (error + byte list) \<times> 't" where
  "roRegisters_ReadString io t =
     (case roRegisters_Read io t of
        (Inl err, t') \<Rightarrow> (Inl err, t')
      | (Inr words, t') \<Rightarrow> (Inr (filterNullChar (wordsToByteArray words)), t'))"

definition rwRegisters_Read :: "'t ioStyle \<Rightarrow> 't \<Rightarrow> (error + uint16 list) \<times> 't" where
  "rwRegisters_Read io t =
     ClientHandler_ReadHoldingRegisters (io_master io) (io_address io) (io_count io) t"

definition rwRegisters_Write :: "'t ioStyle \<Rightarrow> uint16 list \<Rightarrow> 't \<Rightarrow> error option \<times> 't" where
  "rwRegisters_Write io vals t =
     (let l = length vals in
      if l > unat (io_count io) then (Some (ErrInvalidLengthOfWords l), t)
      else ClientHandler_WriteMultipleRegisters (io_master io) (io_address io) vals t)"

definition rwRegisters_ReadString :: "'t ioStyle \<Rightarrow> 't \<Rightarrow> (error + byte list) \<times> 't" where
  "rwRegisters_ReadString io t =
     (case rwRegisters_Read io t of
        (Inl err, t') \<Rightarrow> (Inl err, t')
      | (Inr words, t') \<Rightarrow> (Inr (filterNullChar (wordsToByteArray words)), t'))"

definition rwRegisters_WriteString :: "'t ioStyle \<Rightarrow> byte list \<Rightarrow> 't \<Rightarrow> error option \<times> 't" where
  "rwRegisters_WriteString io s t = rwRegisters_Write io (bytesToWordArray s) t"

section \<open>A call-recording mock transport\<close>

text \<open>
  The mock of the specification's test plan: a transport that records every call made on
  it and answers each \<^verbatim>\<open>Read\<close> with the next prepared chunk of bytes (cut to the buffer),
  or with no bytes when none is left.
\<close>

datatype transport_call =
  ConnectCall | SetReadTimeoutCall int | WriteCall "byte list" | ReadCall nat

record mock_port =
  mock_pending :: "byte list list"
  mock_calls :: "transport_call list"

definition mock_Transporter :: "mock_port Transporter" where
  "mock_Transporter =
     \<lparr>Connect = (\<lambda>m. (None, m\<lparr>mock_calls := mock_calls m @ [ConnectCall]\<rparr>)),
      Read = (\<lambda>n m. case mock_pending m of
                [] \<Rightarrow> (Inr [], m\<lparr>mock_calls := mock_calls m @ [ReadCall n]\<rparr>)
              | chunk # rest \<Rightarrow>
                  (Inr (take n chunk),
                   m\<lparr>mock_pending := rest, mock_calls := mock_calls m @ [ReadCall n]\<rparr>)),
      Write = (\<lambda>b m. (Inr (length b), m\<lparr>mock_calls := mock_calls m @ [WriteCall b]\<rparr>)),
      SetReadTimeout =
        (\<lambda>d m. (None, m\<lparr>mock_calls := mock_calls m @ [SetReadTimeoutCall d]\<rparr>))\<rparr>"

text \<open>
  The client of \<^verbatim>\<open>NewASCIIClient2\<close> with a five-second timeout, on the mock transport instead
  of a serial port, talking to slave 1.
\<close>

definition mock_client :: "mock_port ClientHandler" where
  "mock_client =
     \<lparr>Packager = ASCIIPackager, Transporter = mock_Transporter,
      SlaveID = 1, Timeout = 5000000000\<rparr>"

definition mock_replies :: "byte list list \<Rightarrow> mock_port" where
  "mock_replies frames = \<lparr>mock_pending = frames, mock_calls = []\<rparr>"

section \<open>The specification's wording, for comparison\<close>

text \<open>
  The registers as a big-endian byte sequence, and a byte sequence with its trailing zero
  bytes stripped (zero bytes before a non-zero byte stay).
\<close>

definition big_endian_bytes :: "uint16 list \<Rightarrow> byte list" where
  "big_endian_bytes words = concat (map (\<lambda>w. [ucast (drop_bit 8 w), ucast w]) words)"

definition strip_trailing_zeros :: "byte list \<Rightarrow> byte list" where
  "strip_trailing_zeros bs = rev (dropWhile (\<lambda>b. b = 0) (rev bs))"

text \<open>
  Packing bytes into 16-bit words, first byte of each pair in the high byte.  For the last
  byte of an odd-length string there are two readings: the word whose value is that byte,
  and the word with that byte in the high half and a zero low byte.
\<close>

fun pack_pairs_low :: "byte list \<Rightarrow> uint16 list" where
  "pack_pairs_low (a # b # rest) = (push_bit 8 (ucast a) OR ucast b) # pack_pairs_low rest"
| "pack_pairs_low [a] = [ucast a]"
| "pack_pairs_low [] = []"

fun pack_pairs_high :: "byte list \<Rightarrow> uint16 list" where
  "pack_pairs_high (a # b # rest) = (push_bit 8 (ucast a) OR ucast b) # pack_pairs_high rest"
| "pack_pairs_high [a] = [push_bit 8 (ucast a)]"
| "pack_pairs_high [] = []"

text \<open>
  The two characters \<^verbatim>\<open>writeHex\<close> writes for one byte.
\<close>

definition hexpair :: "byte \<Rightarrow> byte list" where
  "hexpair v = [hexTable ! unat (drop_bit 4 v), hexTable ! unat (v AND 0x0F)]"

section \<open>Properties of the checksum\<close>

lemma lrc_pushBytes_sum: "lrc_sum (lrc_pushBytes l data) = lrc_sum l + sum_list data"
  by (induction data arbitrary: l) (simp_all add: add.assoc)

lemma lrc_call_apply_sum:
  "lrc_sum (lrc_call_apply l c) = lrc_sum l + sum_list (lrc_call_bytes c)"
  by (cases c) (simp_all add: lrc_pushByte_def lrc_pushBytes_sum)

lemma lrc_foldl_sum:
  "lrc_sum (foldl lrc_call_apply l calls) =
     lrc_sum l + sum_list (concat (map lrc_call_bytes calls))"
  by (induction calls arbitrary: l) (simp_all add: lrc_call_apply_sum add.assoc)

lemma lrc_run_sum: "lrc_sum (lrc_run l calls) = sum_list (concat (map lrc_call_bytes calls))"
  by (simp add: lrc_run_def lrc_foldl_sum lrc_reset_def)

lemma lrc_value_neg: "lrc_value l = - lrc_sum l"
  by (simp add: lrc_value_def)

lemma unat_sum_list_byte: "unat (sum_list (bs :: byte list)) = sum_list (map unat bs) mod 256"
proof (induction bs)
  case Nil
  show ?case by simp
next
  case (Cons b bs)
  have "unat (b + sum_list bs) = (unat b + unat (sum_list bs)) mod 256"
    by (simp add: unat_word_ariths)
  also have "\<dots> = (unat b + sum_list (map unat bs) mod 256) mod 256"
    by (simp add: Cons.IH)
  also have "\<dots> = (unat b + sum_list (map unat bs)) mod 256"
    by (rule mod_add_right_eq)
  finally show ?case by simp
qed

lemma unat_neg_byte: "unat (- (w :: byte)) = (256 - unat w) mod 256"
proof (cases "w = 0")
  case True
  then show ?thesis by simp
next
  case False
  have "unat (0 - w) = (if unat w \<le> unat (0 :: byte) then unat (0 :: byte) - unat w
                        else unat (0 :: byte) + 2 ^ size (0 :: byte) - unat w)"
    by (rule unat_sub_if_size)
  moreover have "0 < unat w"
    using False by (simp add: unat_gt_0)
  ultimately have "unat (- w) = 256 - unat w"
    by (simp add: word_size)
  with \<open>0 < unat w\<close> show ?thesis by simp
qed

text \<open>
  C3.  Whatever the split of a byte sequence into \<^verbatim>\<open>pushByte\<close> and \<^verbatim>\<open>pushBytes\<close> calls
  after \<^verbatim>\<open>reset\<close>, and whatever the accumulator held before the reset, \<^verbatim>\<open>value()\<close> is the
  two's-complement negation, in eight bits, of the sum of the bytes modulo 256.  For the
  bytes 02 02 00 6B 00 03 this is 0x8E, the value obtained by summing and then taking the
  two's complement.
\<close>

theorem lrc_value_is_twos_complement_of_sum:
  "unat (lrc_value (lrc_run l calls)) =
     sum_then_twos_complement (concat (map lrc_call_bytes calls))
   \<and> lrc_value (lrc_run l calls) = - sum_list (concat (map lrc_call_bytes calls))
   \<and> lrc_value (lrc_pushBytes (lrc_reset l) [0x02, 0x02, 0x00, 0x6B, 0x00, 0x03]) = 0x8E
   \<and> sum_then_twos_complement [0x02, 0x02, 0x00, 0x6B, 0x00, 0x03] = 0x8E"
proof -
  have "unat (lrc_value (lrc_run l calls)) =
          sum_then_twos_complement (concat (map lrc_call_bytes calls))"
    by (simp only: lrc_value_neg lrc_run_sum unat_neg_byte unat_sum_list_byte
        sum_then_twos_complement_def)
  moreover have "lrc_value (lrc_run l calls) = - sum_list (concat (map lrc_call_bytes calls))"
    by (simp only: lrc_value_neg lrc_run_sum)
  moreover have "lrc_value (lrc_pushBytes (lrc_reset l) [0x02, 0x02, 0x00, 0x6B, 0x00, 0x03]) = 0x8E"
    by (simp add: lrc_value_neg lrc_pushBytes_sum lrc_reset_def)
  moreover have "sum_then_twos_complement [0x02, 0x02, 0x00, 0x6B, 0x00, 0x03] = 0x8E"
    by (simp add: sum_then_twos_complement_def)
  ultimately show ?thesis by blast
qed


section \<open>Properties of the ASCII framing\<close>

lemma writeHex_eq: "writeHex buf vs = buf @ concat (map hexpair vs)"
  by (induction vs arbitrary: buf) (simp_all add: hexpair_def)

lemma hexTable_nibble:
  assumes "n < 16"
  shows "fromHexChar (hexTable ! n) = of_nat n"
proof -
  from assms have "n \<in> {0, 1, 2, 3, 4, 5, 6, 7, 8, 9, 10, 11, 12, 13, 14, 15}"
    by simp arith
  then show ?thesis
    by (auto simp add: hexTable_def bytes_of_def fromHexChar_def)
qed

lemma unat_high_nibble: "unat (drop_bit 4 (v :: byte)) < 16"
proof -
  have "unat (drop_bit 4 v) = drop_bit 4 (unat v)"
    by (rule unat_drop_bit_eq)
  also have "\<dots> = unat v div 2 ^ 4"
    by (rule drop_bit_eq_div)
  finally have "unat (drop_bit 4 v) = unat v div 2 ^ 4" .
  moreover have "unat v < 256" using unsigned_less [of v] by simp
  ultimately show ?thesis by simp
qed

lemma unat_low_nibble: "unat ((v :: byte) AND 0x0F) < 16"
proof -
  have "unat (v AND 0x0F) \<le> unat (0x0F :: byte)"
    by (rule word_and_le1 [THEN word_le_nat_alt [THEN iffD1]])
  then show ?thesis by simp
qed

lemma low_mask: "(0x0F :: byte) = mask 4"
  by (simp add: mask_eq_exp_minus_1)

lemma nibbles_join: "push_bit 4 (drop_bit 4 v) OR (v AND 0x0F) = (v :: byte)"
  unfolding low_mask
  by (rule bit_word_eqI) (auto simp add: bit_simps)

lemma high_nibble_le: "drop_bit 4 (v :: byte) \<le> 0x0F"
  using unat_high_nibble [of v] by (simp add: word_le_nat_alt)

lemma low_nibble_le: "(v :: byte) AND 0x0F \<le> 0x0F"
  by (rule word_and_le1)

lemma hex_Decode_hexpair:
  "hex_Decode (hexpair v @ src) =
     (case hex_Decode src of Inl e \<Rightarrow> Inl e | Inr dst \<Rightarrow> Inr (v # dst))"
proof -
  have a: "fromHexChar (hexTable ! unat (drop_bit 4 v)) = drop_bit 4 v"
    using hexTable_nibble [OF unat_high_nibble [of v]] by simp
  have b: "fromHexChar (hexTable ! unat (v AND 0x0F)) = v AND 0x0F"
    using hexTable_nibble [OF unat_low_nibble [of v]] by simp
  have c: "\<not> 0x0F < drop_bit 4 v"
    using high_nibble_le [of v] by (simp add: not_less)
  have d: "\<not> 0x0F < (v AND 0x0F)"
    using low_nibble_le [of v] by (simp add: not_less)
  show ?thesis
    by (simp add: hexpair_def a b c d nibbles_join split: sum.split)
qed

lemma hex_Decode_writeHex: "hex_Decode (concat (map hexpair vs)) = Inr vs"
  by (induction vs) (simp_all add: hex_Decode_hexpair)


lemma length_hexpair: "length (hexpair v) = 2"
  by (simp add: hexpair_def)

lemma length_hexpairs: "length (concat (map hexpair vs)) = 2 * length vs"
  by (induction vs) (simp_all add: length_hexpair)

lemma readHex_hexpair: "readHex (hexpair v @ rest) = Inr v"
proof -
  have "take 2 (hexpair v @ rest) = hexpair v @ []"
    by (simp add: length_hexpair)
  moreover have "hex_Decode (hexpair v @ []) = Inr [v]"
    by (simp only: hex_Decode_hexpair hex_Decode.simps sum.case)
  ultimately show ?thesis
    by (simp add: readHex_def length_hexpair)
qed

lemma ASCIIPackager_Encode_shape:
  "ASCIIPackager_Encode slaveID pdu =
     Inr (asciiStart @ hexpair slaveID @ hexpair (FunctionCode pdu)
          @ concat (map hexpair (Data pdu))
          @ hexpair (- (slaveID + FunctionCode pdu + sum_list (Data pdu))) @ asciiEnd)"
  by (simp add: ASCIIPackager_Encode_def Let_def writeHex_eq lrc_value_neg lrc_pushBytes_sum
      lrc_pushByte_def lrc_reset_def)

lemma length_asciiStart: "length asciiStart = 1"
  by (simp add: asciiStart_def bytes_of_def)

lemma length_asciiEnd: "length asciiEnd = 2"
  by (simp add: asciiEnd_def bytes_of_def)

lemma ASCIIPackager_Decode_frame:
  assumes adu: "adu = asciiStart @ hexpair a @ hexpair f @ concat (map hexpair d)
                      @ hexpair c @ asciiEnd"
  shows "ASCIIPackager_Decode adu =
           (if c \<noteq> - (a + f + sum_list d) then Inl (ErrLRC c (- (a + f + sum_list d)))
            else Inr \<lparr>FunctionCode = f, Data = d\<rparr>)"
proof -
  have len: "length adu = 9 + 2 * length d"
    by (simp add: adu length_asciiStart length_asciiEnd length_hexpair length_hexpairs)
  have r1: "readHex (drop 1 adu) = Inr a"
    by (simp add: adu length_asciiStart readHex_hexpair)
  have r3: "readHex (drop 3 adu) = Inr f"
    by (simp add: adu length_asciiStart length_hexpair readHex_hexpair)
  have dat: "take (length adu - 4 - 5) (drop 5 adu) = concat (map hexpair d)"
    by (simp add: adu length_asciiStart length_asciiEnd length_hexpair length_hexpairs)
  have r4: "readHex (drop (length adu - 4) adu) = Inr c"
    by (simp add: adu length_asciiStart length_asciiEnd length_hexpair length_hexpairs
        readHex_hexpair)
  have guard: "\<not> int (length adu) - 4 < 5" "\<not> length adu < 1" "\<not> length adu < 3"
    by (simp_all add: len)
  show ?thesis
    unfolding ASCIIPackager_Decode_def
    by (simp only: guard if_False r1 r3 r4 dat sum.case Let_def hex_Decode_writeHex)
      (simp add: lrc_value_neg lrc_pushBytes_sum lrc_pushByte_def lrc_reset_def)
qed

text \<open>
  C2.  For every slave id and every protocol data unit, \<^verbatim>\<open>ASCIIPackager.Encode\<close> succeeds,
  and \<^verbatim>\<open>ASCIIPackager.Decode\<close> applied to the frame it produced succeeds and returns a
  protocol data unit with the same function code and the same data bytes.  This holds for
  data of any length, so in particular for data of at most 252 bytes.
\<close>

theorem ascii_roundtrip:
  "\<exists>adu. ASCIIPackager_Encode slaveID pdu = Inr adu
        \<and> ASCIIPackager_Decode adu
            = Inr \<lparr>FunctionCode = FunctionCode pdu, Data = Data pdu\<rparr>"
  by (simp add: ASCIIPackager_Encode_shape ASCIIPackager_Decode_frame [OF refl])

section \<open>Properties of the exchange\<close>

lemma responseError_eq:
  "responseError response =
     ErrModbus \<lparr>ModbusError.FunctionCode = FunctionCode response,
                ExceptionCode = (case Data response of [] \<Rightarrow> 0 | b # _ \<Rightarrow> b)\<rparr>"
  by (cases "Data response") (simp_all add: responseError_def)

text \<open>
  C1 (amended).  For every request and every decoded response whose function code differs
  from the request's, \<^verbatim>\<open>ClientHandler.transceive\<close> returns a \<^verbatim>\<open>ModbusError\<close> whose
  \<^verbatim>\<open>FunctionCode\<close> field is the function code of the response (the code the device reported
  back), and whose \<^verbatim>\<open>ExceptionCode\<close> field is the first byte of the response payload when the
  payload is non-empty, and zero when it is empty.
\<close>

theorem transceive_exception_carries_response_function_code:
  assumes "Encode (Packager c) (SlaveID c) request = Inr aduRequest"
    and "transceive (Packager c) (Transporter c) aduRequest (Timeout c) t = (Inr aduResponse, t')"
    and "Verify (Packager c) aduRequest aduResponse = None"
    and "Decode (Packager c) aduResponse = Inr response"
    and "FunctionCode response \<noteq> FunctionCode request"
  shows "ClientHandler_transceive c request t =
           (Inl (ErrModbus \<lparr>ModbusError.FunctionCode = FunctionCode response,
                             ExceptionCode = (case Data response of [] \<Rightarrow> 0 | b # _ \<Rightarrow> b)\<rparr>),
            t')"
  using assms by (simp add: ClientHandler_transceive_def responseError_eq)

text \<open>
  The theorem at work: slave 1 answers a read of holding registers (function 0x03) with
  function 0x83 and exception code 2.
\<close>

theorem transceive_exception_witness:
  "Encode (Packager mock_client) (SlaveID mock_client)
       \<lparr>FunctionCode = 0x03, Data = [0x00, 0x6B, 0x00, 0x03]\<rparr>
     = Inr (bytes_of '':0103006B00038E'' @ asciiEnd)
   \<and> transceive (Packager mock_client) (Transporter mock_client)
         (bytes_of '':0103006B00038E'' @ asciiEnd) (Timeout mock_client)
         (mock_replies [bytes_of '':0183027A'' @ asciiEnd])
       = (Inr (bytes_of '':0183027A'' @ asciiEnd),
          \<lparr>mock_pending = [],
           mock_calls = [ConnectCall, SetReadTimeoutCall 5000000000,
                         WriteCall (bytes_of '':0103006B00038E'' @ asciiEnd), ReadCall 513]\<rparr>)
   \<and> Verify (Packager mock_client) (bytes_of '':0103006B00038E'' @ asciiEnd)
         (bytes_of '':0183027A'' @ asciiEnd) = None
   \<and> Decode (Packager mock_client) (bytes_of '':0183027A'' @ asciiEnd)
       = Inr \<lparr>FunctionCode = 0x83, Data = [0x02]\<rparr>
   \<and> ClientHandler_transceive mock_client \<lparr>FunctionCode = 0x03, Data = [0x00, 0x6B, 0x00, 0x03]\<rparr>
         (mock_replies [bytes_of '':0183027A'' @ asciiEnd])
       = (Inl (ErrModbus \<lparr>ModbusError.FunctionCode = 0x83, ExceptionCode = 0x02\<rparr>),
          \<lparr>mock_pending = [],
           mock_calls = [ConnectCall, SetReadTimeoutCall 5000000000,
                         WriteCall (bytes_of '':0103006B00038E'' @ asciiEnd), ReadCall 513]\<rparr>)"
proof -
  let ?req = "\<lparr>FunctionCode = 0x03, Data = [0x00, 0x6B, 0x00, 0x03]\<rparr>"
  let ?aduReq = "bytes_of '':0103006B00038E'' @ asciiEnd"
  let ?aduResp = "bytes_of '':0183027A'' @ asciiEnd"
  let ?t' = "\<lparr>mock_pending = [],
           mock_calls = [ConnectCall, SetReadTimeoutCall 5000000000,
                         WriteCall ?aduReq, ReadCall 513]\<rparr>"
  have h1: "Encode (Packager mock_client) (SlaveID mock_client) ?req = Inr ?aduReq"
    by code_simp
  have h2: "transceive (Packager mock_client) (Transporter mock_client) ?aduReq
              (Timeout mock_client) (mock_replies [?aduResp]) = (Inr ?aduResp, ?t')"
    by code_simp
  have h3: "Verify (Packager mock_client) ?aduReq ?aduResp = None"
    by code_simp
  have h4: "Decode (Packager mock_client) ?aduResp = Inr \<lparr>FunctionCode = 0x83, Data = [0x02]\<rparr>"
    by code_simp
  have h5: "FunctionCode \<lparr>FunctionCode = 0x83, Data = [0x02]\<rparr> \<noteq> FunctionCode ?req"
    by simp
  from transceive_exception_carries_response_function_code [OF h1 h2 h3 h4 h5]
  have "ClientHandler_transceive mock_client ?req (mock_replies [?aduResp])
          = (Inl (ErrModbus \<lparr>ModbusError.FunctionCode = 0x83, ExceptionCode = 0x02\<rparr>), ?t')"
    by simp
  with h1 h2 h3 h4 show ?thesis by blast
qed

text \<open>
  C1 as stated fails: in the same exchange the error does not carry the request's function
  code 0x03.
\<close>

theorem transceive_exception_not_request_function_code:
  "ASCIIPackager_Decode (bytes_of '':0183027A'' @ asciiEnd)
     = Inr \<lparr>FunctionCode = 0x83, Data = [0x02]\<rparr>
   \<and> fst (ClientHandler_transceive mock_client
             \<lparr>FunctionCode = 0x03, Data = [0x00, 0x6B, 0x00, 0x03]\<rparr>
             (mock_replies [bytes_of '':0183027A'' @ asciiEnd]))
       = Inl (ErrModbus \<lparr>ModbusError.FunctionCode = 0x83, ExceptionCode = 0x02\<rparr>)
   \<and> fst (ClientHandler_transceive mock_client
             \<lparr>FunctionCode = 0x03, Data = [0x00, 0x6B, 0x00, 0x03]\<rparr>
             (mock_replies [bytes_of '':0183027A'' @ asciiEnd]))
       \<noteq> Inl (ErrModbus \<lparr>ModbusError.FunctionCode = 0x03, ExceptionCode = 0x02\<rparr>)"
  by code_simp

section \<open>Argument validation\<close>

text \<open>
  C4.  Every operation with a documented quantity limit, called with a quantity outside the
  limit, returns an argument-range error and hands the transport back in the state it
  received: no \<^verbatim>\<open>Connect\<close>, \<^verbatim>\<open>Write\<close> or \<^verbatim>\<open>Read\<close> was applied to it.  The limits are
  1-2000 for \<^verbatim>\<open>ReadCoils\<close> and \<^verbatim>\<open>ReadDiscreteInputs\<close>, 1-125 for \<^verbatim>\<open>ReadHoldingRegisters\<close> and
  \<^verbatim>\<open>ReadInputRegisters\<close>, 1-1968 for \<^verbatim>\<open>WriteMultipleCoils\<close>, 1-123 for
  \<^verbatim>\<open>WriteMultipleRegisters\<close>, and read 1-125, write 1-121 for \<^verbatim>\<open>ReadWriteMultipleRegisters\<close>.
\<close>

theorem quantity_out_of_range_is_argument_error_without_transport_call:
  "(quantity < 1 \<or> quantity > 2000 \<longrightarrow>
      (\<exists>e. ClientHandler_ReadCoils c address quantity t = (Inl e, t)
           \<and> kind_of e = ArgumentError)
    \<and> (\<exists>e. ClientHandler_ReadDiscreteInputs c address quantity t = (Inl e, t)
           \<and> kind_of e = ArgumentError))
 \<and> (quantity < 1 \<or> quantity > 125 \<longrightarrow>
      (\<exists>e. ClientHandler_ReadHoldingRegisters c address quantity t = (Inl e, t)
           \<and> kind_of e = ArgumentError)
    \<and> (\<exists>e. ClientHandler_ReadInputRegisters c address quantity t = (Inl e, t)
           \<and> kind_of e = ArgumentError))
 \<and> (length coils < 1 \<or> length coils > 1968 \<longrightarrow>
      (\<exists>e. ClientHandler_WriteMultipleCoils c address coils t = (Some e, t)
           \<and> kind_of e = ArgumentError))
 \<and> (length vals < 1 \<or> length vals > 123 \<longrightarrow>
      (\<exists>e. ClientHandler_WriteMultipleRegisters c address vals t = (Some e, t)
           \<and> kind_of e = ArgumentError))
 \<and> (readQuantity < 1 \<or> readQuantity > 125 \<or> writeQuantity < 1 \<or> writeQuantity > 121 \<longrightarrow>
      (\<exists>e. ClientHandler_ReadWriteMultipleRegisters c address readQuantity writeAddress
              writeQuantity val t = (Inl e, t)
           \<and> kind_of e = ArgumentError))"
proof -
  have coils: "quantity < 1 \<or> quantity > 2000 \<Longrightarrow>
      \<exists>e. ClientHandler_ReadCoils c address quantity t = (Inl e, t) \<and> kind_of e = ArgumentError"
    by (simp add: ClientHandler_ReadCoils_def)
  have inputs: "quantity < 1 \<or> quantity > 2000 \<Longrightarrow>
      \<exists>e. ClientHandler_ReadDiscreteInputs c address quantity t = (Inl e, t)
          \<and> kind_of e = ArgumentError"
    by (simp add: ClientHandler_ReadDiscreteInputs_def)
  have holding: "quantity < 1 \<or> quantity > 125 \<Longrightarrow>
      \<exists>e. ClientHandler_ReadHoldingRegisters c address quantity t = (Inl e, t)
          \<and> kind_of e = ArgumentError"
    by (simp add: ClientHandler_ReadHoldingRegisters_def)
  have inregs: "quantity < 1 \<or> quantity > 125 \<Longrightarrow>
      \<exists>e. ClientHandler_ReadInputRegisters c address quantity t = (Inl e, t)
          \<and> kind_of e = ArgumentError"
    by (simp add: ClientHandler_ReadInputRegisters_def)
  have wcoils: "length coils < 1 \<or> length coils > 1968 \<Longrightarrow>
      \<exists>e. ClientHandler_WriteMultipleCoils c address coils t = (Some e, t)
          \<and> kind_of e = ArgumentError"
    by (simp add: ClientHandler_WriteMultipleCoils_def Let_def)
  have wregs: "length vals < 1 \<or> length vals > 123 \<Longrightarrow>
      \<exists>e. ClientHandler_WriteMultipleRegisters c address vals t = (Some e, t)
          \<and> kind_of e = ArgumentError"
    by (simp add: ClientHandler_WriteMultipleRegisters_def Let_def)
  have rw: "readQuantity < 1 \<or> readQuantity > 125 \<or> writeQuantity < 1 \<or> writeQuantity > 121 \<Longrightarrow>
      \<exists>e. ClientHandler_ReadWriteMultipleRegisters c address readQuantity writeAddress
              writeQuantity val t = (Inl e, t)
          \<and> kind_of e = ArgumentError"
    by (auto simp add: ClientHandler_ReadWriteMultipleRegisters_def)
  from coils inputs holding inregs wcoils wregs rw show ?thesis
    by blast
qed


text \<open>
  The theorem on the call-recording mock: quantity 0 for every operation, and quantity 126
  for \<^verbatim>\<open>ReadHoldingRegisters\<close>; the record of calls stays empty.
\<close>

theorem quantity_out_of_range_witness:
  "((0 :: uint16) < 1 \<or> (0 :: uint16) > 2000)
   \<and> ((126 :: uint16) < 1 \<or> (126 :: uint16) > 125)
   \<and> (length ([] :: bool list) < 1 \<or> length ([] :: bool list) > 1968)
   \<and> (\<exists>e. ClientHandler_ReadCoils mock_client 0x13 0 (mock_replies [])
              = (Inl e, mock_replies []) \<and> kind_of e = ArgumentError)
   \<and> (\<exists>e. ClientHandler_ReadDiscreteInputs mock_client 0x13 0 (mock_replies [])
              = (Inl e, mock_replies []) \<and> kind_of e = ArgumentError)
   \<and> (\<exists>e. ClientHandler_ReadHoldingRegisters mock_client 0x13 0 (mock_replies [])
              = (Inl e, mock_replies []) \<and> kind_of e = ArgumentError)
   \<and> (\<exists>e. ClientHandler_ReadHoldingRegisters mock_client 0x13 126 (mock_replies [])
              = (Inl e, mock_replies []) \<and> kind_of e = ArgumentError)
   \<and> (\<exists>e. ClientHandler_ReadInputRegisters mock_client 0x13 0 (mock_replies [])
              = (Inl e, mock_replies []) \<and> kind_of e = ArgumentError)
   \<and> (\<exists>e. ClientHandler_WriteMultipleCoils mock_client 0x13 [] (mock_replies [])
              = (Some e, mock_replies []) \<and> kind_of e = ArgumentError)
   \<and> (\<exists>e. ClientHandler_WriteMultipleRegisters mock_client 0x13 [] (mock_replies [])
              = (Some e, mock_replies []) \<and> kind_of e = ArgumentError)
   \<and> (\<exists>e. ClientHandler_ReadWriteMultipleRegisters mock_client 0x13 0 0x0E 0 []
                (mock_replies [])
              = (Inl e, mock_replies []) \<and> kind_of e = ArgumentError)
   \<and> mock_calls (snd (ClientHandler_ReadHoldingRegisters mock_client 0x13 126
                         (mock_replies []))) = []
   \<and> mock_calls (mock_replies []) = []"
proof -
  have q0: "(0 :: uint16) < 1 \<or> (0 :: uint16) > 2000" "(0 :: uint16) < 1 \<or> (0 :: uint16) > 125"
    by simp_all
  have q126: "(126 :: uint16) < 1 \<or> (126 :: uint16) > 125"
    by simp
  have l0: "length ([] :: bool list) < 1 \<or> length ([] :: bool list) > 1968"
      "length ([] :: uint16 list) < 1 \<or> length ([] :: uint16 list) > 123"
    by simp_all
  have rw0: "(0 :: uint16) < 1 \<or> (0 :: uint16) > 125 \<or> (0 :: uint16) < 1 \<or> (0 :: uint16) > 121"
    by simp
  note zero = quantity_out_of_range_is_argument_error_without_transport_call
      [of 0 mock_client "0x13" "mock_replies []" "[]" "[]" 0 0 "0x0E" "[]"]
  note big = quantity_out_of_range_is_argument_error_without_transport_call
      [of 126 mock_client "0x13" "mock_replies []" "[]" "[]" 0 0 "0x0E" "[]"]
  from big q126 have h126:
    "\<exists>e. ClientHandler_ReadHoldingRegisters mock_client 0x13 126 (mock_replies [])
              = (Inl e, mock_replies []) \<and> kind_of e = ArgumentError"
    by blast
  then have calls: "mock_calls (snd (ClientHandler_ReadHoldingRegisters mock_client 0x13 126
                         (mock_replies []))) = []"
    by (auto simp add: mock_replies_def)
  have empty: "mock_calls (mock_replies []) = []"
    by (simp add: mock_replies_def)
  from zero q0 l0 rw0 h126 calls empty q126 show ?thesis
    by blast
qed

text \<open>
  For comparison, a quantity inside the limit reaches the transport: the mock records the
  connect, the timeout, the request frame and one read.
\<close>

lemma quantity_in_range_calls_transport:
  "mock_calls (snd (ClientHandler_ReadHoldingRegisters mock_client 0x6B 3
                      (mock_replies [bytes_of '':010306022B00000064'' @ bytes_of ''65''
                                     @ asciiEnd])))
     = [ConnectCall, SetReadTimeoutCall 5000000000,
        WriteCall (bytes_of '':0103006B00038E'' @ asciiEnd), ReadCall 513]
   \<and> fst (ClientHandler_ReadHoldingRegisters mock_client 0x6B 3
            (mock_replies [bytes_of '':010306022B00000064'' @ bytes_of ''65'' @ asciiEnd]))
     = Inr [0x022B, 0x0000, 0x0064]"
  by code_simp

section \<open>Packing bytes into registers and back\<close>

declare bytesToWordArray_loop.simps [simp del]

lemma length_bytesToWordArray_loop [simp]:
  "length (bytesToWordArray_loop bytes n i array) = length array"
proof (induction bytes n i array rule: bytesToWordArray_loop.induct)
  case (1 bytes n i array)
  then show ?case
    by (subst bytesToWordArray_loop.simps) (simp add: Let_def)
qed

lemma bytesToWordArray_loop_nth:
  "length array = n \<Longrightarrow> k < n \<Longrightarrow>
   bytesToWordArray_loop bytes n i array ! k =
     (if k < i then array ! k
      else if k * 2 + 2 > length bytes then ucast (bytes ! (k * 2))
      else BigEndian_Uint16 (take 2 (drop (k * 2) bytes)))"
proof (induction bytes n i array rule: bytesToWordArray_loop.induct)
  case (1 bytes n i array)
  show ?case
  proof (cases "i < n")
    case False
    with "1.prems" show ?thesis
      by (subst bytesToWordArray_loop.simps) simp
  next
    case True
    show ?thesis
    proof (cases "i * 2 + 2 > length bytes")
      case big: True
      from "1.IH"(1) [OF True refl big] "1.prems" True big
      show ?thesis
        by (subst bytesToWordArray_loop.simps) (auto simp add: Let_def nth_list_update less_Suc_eq)
    next
      case small: False
      from "1.IH"(2) [OF True refl small] "1.prems" True small
      show ?thesis
        by (subst bytesToWordArray_loop.simps) (auto simp add: Let_def nth_list_update less_Suc_eq)
    qed
  qed
qed

lemma length_pack_pairs_low: "length (pack_pairs_low bs) = (length bs + 1) div 2"
  by (induction bs rule: pack_pairs_low.induct) simp_all

lemma pack_pairs_low_nth:
  "k < (length bs + 1) div 2 \<Longrightarrow>
   pack_pairs_low bs ! k =
     (if k * 2 + 2 > length bs then ucast (bs ! (k * 2))
      else BigEndian_Uint16 (take 2 (drop (k * 2) bs)))"
proof (induction bs arbitrary: k rule: pack_pairs_low.induct)
  case (1 a b rest)
  show ?case
  proof (cases k)
    case 0
    then show ?thesis by (simp add: BigEndian_Uint16_def or.commute)
  next
    case (Suc m)
    with 1 show ?thesis by simp
  qed
next
  case (2 a)
  then show ?case by simp
next
  case 3
  then show ?case by simp
qed

lemma bytesToWordArray_eq: "bytesToWordArray bs = pack_pairs_low bs"
proof (rule nth_equalityI)
  show "length (bytesToWordArray bs) = length (pack_pairs_low bs)"
    by (simp add: bytesToWordArray_def Let_def length_pack_pairs_low)
next
  fix k
  assume "k < length (bytesToWordArray bs)"
  then have k: "k < (length bs + 1) div 2"
    by (simp add: bytesToWordArray_def Let_def)
  then show "bytesToWordArray bs ! k = pack_pairs_low bs ! k"
    by (simp add: bytesToWordArray_def Let_def bytesToWordArray_loop_nth pack_pairs_low_nth)
qed


lemma pack_pairs_low_pair:
  "2 * k + 1 < length s \<Longrightarrow>
   pack_pairs_low s ! k = push_bit 8 (ucast (s ! (2 * k))) OR ucast (s ! (2 * k + 1))"
proof (induction s arbitrary: k rule: pack_pairs_low.induct)
  case (1 a b rest)
  then show ?case by (cases k) simp_all
next
  case (2 a)
  then show ?case by simp
next
  case 3
  then show ?case by simp
qed

lemma pack_pairs_low_final:
  "odd (length s) \<Longrightarrow> pack_pairs_low s ! (length s div 2) = ucast (s ! (length s - 1))"
proof (induction s rule: pack_pairs_low.induct)
  case (1 a b rest)
  then show ?case by (cases rest) simp_all
next
  case (2 a)
  then show ?case by simp
next
  case 3
  then show ?case by simp
qed

text \<open>
  C8 (amended).  For every string \<open>s\<close>, \<^verbatim>\<open>rwRegisters.WriteString(s)\<close> writes the words obtained
  by pairing consecutive bytes big-endian (first byte of a pair in the high byte), and when
  the length of \<open>s\<close> is odd the final word is the last byte zero-extended: the last byte in
  the low byte under a zero high byte, a word whose value is that byte.
\<close>

theorem WriteString_packs_pairs_final_byte_low:
  "rwRegisters_WriteString io s t = rwRegisters_Write io (pack_pairs_low s) t
   \<and> length (bytesToWordArray s) = (length s + 1) div 2
   \<and> (\<forall>k. 2 * k + 1 < length s \<longrightarrow>
          bytesToWordArray s ! k = push_bit 8 (ucast (s ! (2 * k))) OR ucast (s ! (2 * k + 1)))
   \<and> (odd (length s) \<longrightarrow>
          bytesToWordArray s ! (length s div 2) = ucast (s ! (length s - 1)))"
  by (simp add: rwRegisters_WriteString_def bytesToWordArray_eq length_pack_pairs_low
      pack_pairs_low_pair pack_pairs_low_final)

text \<open>
  The theorem on the string "abc": one full pair and a final odd byte.
\<close>

theorem WriteString_packs_witness:
  "2 * 0 + 1 < length (bytes_of ''abc'')
   \<and> odd (length (bytes_of ''abc''))
   \<and> bytesToWordArray (bytes_of ''abc'') ! 0 = 0x6162
   \<and> bytesToWordArray (bytes_of ''abc'') ! 1 = 0x0063
   \<and> length (bytesToWordArray (bytes_of ''abc'')) = 2"
proof -
  have h1: "2 * 0 + 1 < length (bytes_of ''abc'')"
    by (simp add: bytes_of_def)
  have h2: "odd (length (bytes_of ''abc''))"
    by (simp add: bytes_of_def)
  note inst = WriteString_packs_pairs_final_byte_low
      [of "\<lparr>io_master = mock_client, io_address = 0x0001, io_count = 2\<rparr>"
          "bytes_of ''abc''" "mock_replies []"]
  from inst h1 have "bytesToWordArray (bytes_of ''abc'') ! 0
      = push_bit 8 (ucast (bytes_of ''abc'' ! (2 * 0))) OR ucast (bytes_of ''abc'' ! (2 * 0 + 1))"
    by blast
  then have w0: "bytesToWordArray (bytes_of ''abc'') ! 0 = 0x6162"
    by (simp add: bytes_of_def)
  from inst h2 have "bytesToWordArray (bytes_of ''abc'') ! (length (bytes_of ''abc'') div 2)
      = ucast (bytes_of ''abc'' ! (length (bytes_of ''abc'') - 1))"
    by blast
  then have w1: "bytesToWordArray (bytes_of ''abc'') ! 1 = 0x0063"
    by (simp add: bytes_of_def)
  from inst have "length (bytesToWordArray (bytes_of ''abc'')) = (length (bytes_of ''abc'') + 1) div 2"
    by blast
  then have len: "length (bytesToWordArray (bytes_of ''abc'')) = 2"
    by (simp add: bytes_of_def)
  from h1 h2 w0 w1 len show ?thesis by blast
qed

text \<open>
  C8 as stated fails on "abc": the final word is 0x0063, not 0x6300, and the frame written
  to the transport differs from the one that the high-byte packing would give.
\<close>

theorem WriteString_final_byte_not_high:
  "bytesToWordArray (bytes_of ''abc'') = [0x6162, 0x0063]
   \<and> pack_pairs_high (bytes_of ''abc'') = [0x6162, 0x6300]
   \<and> mock_calls (snd (rwRegisters_WriteString
          \<lparr>io_master = mock_client, io_address = 0x0001, io_count = 2\<rparr> (bytes_of ''abc'')
          (mock_replies [bytes_of '':011000010002EC'' @ asciiEnd])))
       = [ConnectCall, SetReadTimeoutCall 5000000000,
          WriteCall (bytes_of '':0110000100020461620063C2'' @ asciiEnd), ReadCall 513]
   \<and> rwRegisters_WriteString
          \<lparr>io_master = mock_client, io_address = 0x0001, io_count = 2\<rparr> (bytes_of ''abc'')
          (mock_replies [bytes_of '':011000010002EC'' @ asciiEnd])
       \<noteq> rwRegisters_Write
          \<lparr>io_master = mock_client, io_address = 0x0001, io_count = 2\<rparr>
          (pack_pairs_high (bytes_of ''abc''))
          (mock_replies [bytes_of '':011000010002EC'' @ asciiEnd])"
  by code_simp

section \<open>Registers as text\<close>

lemma BigEndian_PutUint16_eq:
  "off + 2 \<le> length b \<Longrightarrow>
   BigEndian_PutUint16 b off v =
     take off b @ [ucast (drop_bit 8 v), ucast v] @ drop (off + 2) b"
proof -
  assume len: "off + 2 \<le> length b"
  have "b[off := ucast (drop_bit 8 v)] = take off b @ ucast (drop_bit 8 v) # drop (Suc off) b"
    using len by (simp add: upd_conv_take_nth_drop)
  moreover have "(take off b @ ucast (drop_bit 8 v) # drop (Suc off) b)[off + 1 := ucast v]
      = take off b @ ucast (drop_bit 8 v) # (drop (Suc off) b)[0 := ucast v]"
    using len by (simp add: list_update_append)
  moreover have "(drop (Suc off) b)[0 := ucast v] = ucast v # drop (off + 2) b"
  proof -
    have "drop (Suc off) b = b ! Suc off # drop (Suc (Suc off)) b"
      using len by (simp add: Cons_nth_drop_Suc)
    then show ?thesis by simp
  qed
  ultimately show ?thesis
    by (simp add: BigEndian_PutUint16_def)
qed

lemma PutUint16_loop_eq:
  "2 * (i + length vs) \<le> length data \<Longrightarrow>
   PutUint16_loop data i vs =
     take (2 * i) data @ big_endian_bytes vs @ drop (2 * (i + length vs)) data"
proof (induction vs arbitrary: data i)
  case Nil
  then show ?case by (simp add: big_endian_bytes_def)
next
  case (Cons v vs)
  let ?d = "BigEndian_PutUint16 data (i * 2) v"
  have d: "?d = take (2 * i) data @ [ucast (drop_bit 8 v), ucast v] @ drop (2 * i + 2) data"
    using Cons.prems by (simp add: BigEndian_PutUint16_eq mult.commute)
  then have len: "length ?d = length data"
    using Cons.prems by simp
  have "PutUint16_loop ?d (i + 1) vs =
          take (2 * (i + 1)) ?d @ big_endian_bytes vs @ drop (2 * (i + 1 + length vs)) ?d"
    using Cons.prems len by (intro Cons.IH) simp
  moreover have "take (2 * (i + 1)) ?d = take (2 * i) data @ [ucast (drop_bit 8 v), ucast v]"
    using Cons.prems by (simp add: d)
  moreover have "drop (2 * (i + 1 + length vs)) ?d = drop (2 * (i + length (v # vs))) data"
    using Cons.prems by (simp add: d add.commute)
  ultimately show ?case
    by (simp add: big_endian_bytes_def)
qed

lemma wordsToByteArray_eq: "wordsToByteArray words = big_endian_bytes words"
  by (simp add: wordsToByteArray_def PutUint16_loop_eq)

lemma dataBlock_eq: "dataBlock vs = big_endian_bytes vs"
  by (simp add: dataBlock_def PutUint16_loop_eq)

lemma filter_loop_eq: "filter_loop fn p s = p @ filter fn s"
  by (induction s arbitrary: p) simp_all

lemma filterNullChar_eq: "filterNullChar a = filter (\<lambda>c. c \<noteq> 0) a"
  by (simp add: filterNullChar_def filter_bytes_def filter_loop_eq)

text \<open>
  C7 (amended).  For every successful register-block read, \<^verbatim>\<open>ReadString\<close> (on both
  \<^verbatim>\<open>roRegisters\<close> and \<^verbatim>\<open>rwRegisters\<close>) returns the registers reinterpreted as a big-endian byte
  sequence with every zero byte removed, wherever it stands: trailing zero bytes and zero
  bytes before a non-zero byte alike.
\<close>

theorem ReadString_removes_every_zero_byte:
  "(rwRegisters_Read io t = (Inr words, t') \<longrightarrow>
      rwRegisters_ReadString io t
        = (Inr (filter (\<lambda>b. b \<noteq> 0) (big_endian_bytes words)), t'))
   \<and> (roRegisters_Read io t = (Inr words, t') \<longrightarrow>
      roRegisters_ReadString io t
        = (Inr (filter (\<lambda>b. b \<noteq> 0) (big_endian_bytes words)), t'))"
  by (simp add: rwRegisters_ReadString_def roRegisters_ReadString_def wordsToByteArray_eq
      filterNullChar_eq)


text \<open>
  The theorem on the mock: slave 1 holds the registers 0x4100 and 0x4200 at address 0x0100.
\<close>

theorem ReadString_witness:
  "rwRegisters_Read \<lparr>io_master = mock_client, io_address = 0x0100, io_count = 2\<rparr>
       (mock_replies [bytes_of '':0103044100420075'' @ asciiEnd])
     = (Inr [0x4100, 0x4200],
        \<lparr>mock_pending = [],
         mock_calls = [ConnectCall, SetReadTimeoutCall 5000000000,
                       WriteCall (bytes_of '':010301000002F9'' @ asciiEnd), ReadCall 513]\<rparr>)
   \<and> rwRegisters_ReadString \<lparr>io_master = mock_client, io_address = 0x0100, io_count = 2\<rparr>
       (mock_replies [bytes_of '':0103044100420075'' @ asciiEnd])
     = (Inr (bytes_of ''AB''),
        \<lparr>mock_pending = [],
         mock_calls = [ConnectCall, SetReadTimeoutCall 5000000000,
                       WriteCall (bytes_of '':010301000002F9'' @ asciiEnd), ReadCall 513]\<rparr>)
   \<and> roRegisters_Read \<lparr>io_master = mock_client, io_address = 0x0100, io_count = 2\<rparr>
       (mock_replies [bytes_of '':0104044100420074'' @ asciiEnd])
     = (Inr [0x4100, 0x4200],
        \<lparr>mock_pending = [],
         mock_calls = [ConnectCall, SetReadTimeoutCall 5000000000,
                       WriteCall (bytes_of '':010401000002F8'' @ asciiEnd), ReadCall 513]\<rparr>)
   \<and> roRegisters_ReadString \<lparr>io_master = mock_client, io_address = 0x0100, io_count = 2\<rparr>
       (mock_replies [bytes_of '':0104044100420074'' @ asciiEnd])
     = (Inr (bytes_of ''AB''),
        \<lparr>mock_pending = [],
         mock_calls = [ConnectCall, SetReadTimeoutCall 5000000000,
                       WriteCall (bytes_of '':010401000002F8'' @ asciiEnd), ReadCall 513]\<rparr>)"
proof -
  let ?io = "\<lparr>io_master = mock_client, io_address = 0x0100, io_count = 2\<rparr>"
  let ?rw = "mock_replies [bytes_of '':0103044100420075'' @ asciiEnd]"
  let ?ro = "mock_replies [bytes_of '':0104044100420074'' @ asciiEnd]"
  let ?rw' = "\<lparr>mock_pending = [],
         mock_calls = [ConnectCall, SetReadTimeoutCall 5000000000,
                       WriteCall (bytes_of '':010301000002F9'' @ asciiEnd), ReadCall 513]\<rparr>"
  let ?ro' = "\<lparr>mock_pending = [],
         mock_calls = [ConnectCall, SetReadTimeoutCall 5000000000,
                       WriteCall (bytes_of '':010401000002F8'' @ asciiEnd), ReadCall 513]\<rparr>"
  have rw: "rwRegisters_Read ?io ?rw = (Inr [0x4100, 0x4200], ?rw')"
    by code_simp
  have ro: "roRegisters_Read ?io ?ro = (Inr [0x4100, 0x4200], ?ro')"
    by code_simp
  have bytes: "filter (\<lambda>b. b \<noteq> 0) (big_endian_bytes [0x4100, 0x4200]) = bytes_of ''AB''"
    by (simp add: big_endian_bytes_def bytes_of_def)
  from ReadString_removes_every_zero_byte [of ?io ?rw "[0x4100, 0x4200]" ?rw'] rw
  have "rwRegisters_ReadString ?io ?rw = (Inr (bytes_of ''AB''), ?rw')"
    by (simp only: bytes)
  moreover
  from ReadString_removes_every_zero_byte [of ?io ?ro "[0x4100, 0x4200]" ?ro'] ro
  have "roRegisters_ReadString ?io ?ro = (Inr (bytes_of ''AB''), ?ro')"
    by (simp only: bytes)
  ultimately show ?thesis
    using rw ro by blast
qed

text \<open>
  C7 as stated fails on these registers: the zero byte between "A" and "B" stands before
  a non-zero byte, and it is removed all the same.
\<close>

theorem ReadString_drops_inner_zero_byte:
  "fst (rwRegisters_Read \<lparr>io_master = mock_client, io_address = 0x0100, io_count = 2\<rparr>
          (mock_replies [bytes_of '':0103044100420075'' @ asciiEnd]))
     = Inr [0x4100, 0x4200]
   \<and> big_endian_bytes [0x4100, 0x4200] = [0x41, 0x00, 0x42, 0x00]
   \<and> strip_trailing_zeros (big_endian_bytes [0x4100, 0x4200]) = [0x41, 0x00, 0x42]
   \<and> fst (rwRegisters_ReadString \<lparr>io_master = mock_client, io_address = 0x0100, io_count = 2\<rparr>
          (mock_replies [bytes_of '':0103044100420075'' @ asciiEnd]))
     = Inr [0x41, 0x42]
   \<and> fst (roRegisters_Read \<lparr>io_master = mock_client, io_address = 0x0100, io_count = 2\<rparr>
          (mock_replies [bytes_of '':0104044100420074'' @ asciiEnd]))
     = Inr [0x4100, 0x4200]
   \<and> fst (roRegisters_ReadString \<lparr>io_master = mock_client, io_address = 0x0100, io_count = 2\<rparr>
          (mock_replies [bytes_of '':0104044100420074'' @ asciiEnd]))
     = Inr [0x41, 0x42]"
  by code_simp

section \<open>Reading the FIFO queue\<close>

lemma uint16_of_bytes:
  "ucast (ucast w :: byte) OR push_bit 8 (ucast (ucast (drop_bit 8 w) :: byte)) = (w :: uint16)"
  by (rule bit_word_eqI) (auto simp add: bit_simps)

lemma BigEndian_Uint16_big_endian_bytes:
  "BigEndian_Uint16 (big_endian_bytes (w # ws) @ rest) = w"
  by (simp add: BigEndian_Uint16_def big_endian_bytes_def uint16_of_bytes)

lemma unat_ucast_byte: "unat (ucast (lo :: byte) :: uint16) = unat lo"
proof -
  have "unat lo < 2 ^ LENGTH(8)"
    by (rule unsigned_less)
  then have "unat lo < 2 ^ 16"
    by simp
  then show ?thesis
    by (simp add: unsigned_ucast_eq take_bit_nat_eq_self)
qed

lemma unat_byte_pair:
  "unat (ucast (lo :: byte) OR push_bit 8 (ucast (hi :: byte)) :: uint16) = 256 * unat hi + unat lo"
proof -
  have disj: "(ucast lo :: uint16) AND push_bit 8 (ucast hi) = 0"
    by (rule bit_word_eqI) (auto simp add: bit_simps dest: bit_imp_le_length)
  have hi_lt: "unat hi < 2 ^ 8"
    using unsigned_less [of hi] by simp
  have lo_lt: "unat lo < 2 ^ 8"
    using unsigned_less [of lo] by simp
  have "unat (push_bit 8 (ucast hi) :: uint16) = take_bit 16 (push_bit 8 (unat (ucast hi :: uint16)))"
    by (simp add: unsigned_push_bit_eq)
  also have "\<dots> = take_bit 16 (256 * unat hi)"
    by (simp add: unat_ucast_byte push_bit_eq_mult mult.commute)
  also have "\<dots> = 256 * unat hi"
    using hi_lt by (simp add: take_bit_nat_eq_self)
  finally have hi: "unat (push_bit 8 (ucast hi) :: uint16) = 256 * unat hi" .
  have "(ucast lo :: uint16) OR push_bit 8 (ucast hi) = ucast lo + push_bit 8 (ucast hi)"
    using disj by (rule disjunctive_add_eq_or [symmetric])
  moreover have "unat ((ucast lo :: uint16) + push_bit 8 (ucast hi))
      = unat (ucast lo :: uint16) + unat (push_bit 8 (ucast hi) :: uint16)"
    using hi_lt lo_lt by (intro unat_add_lem [THEN iffD1]) (simp add: unat_ucast_byte hi)
  ultimately show ?thesis
    by (simp only: unat_ucast_byte hi add.commute)
qed

lemma standard_count_mismatch: "(2 + 2 * N) mod 65536 \<noteq> 3 + 2 * (N :: nat)"
proof
  assume eq: "(2 + 2 * N) mod 65536 = 3 + 2 * N"
  have "(2::nat) dvd 65536"
    by simp
  then have "even ((2 + 2 * N) mod 65536) \<longleftrightarrow> even (2 + 2 * N)"
    by (rule dvd_mod_iff)
  then have "even ((2 + 2 * N) mod 65536)"
    by simp
  moreover have "odd (3 + 2 * N)"
    by simp
  ultimately show False
    using eq by simp
qed


lemma unat_BigEndian_Uint16:
  "unat (BigEndian_Uint16 b) = 256 * unat (b ! 0) + unat (b ! 1)"
  unfolding BigEndian_Uint16_def by (rule unat_byte_pair)

lemma length_big_endian_bytes: "length (big_endian_bytes ws) = 2 * length ws"
  by (induction ws) (simp_all add: big_endian_bytes_def)

lemma ReadFIFOQueue_request:
  "\<lparr>FunctionCode = FuncCodeReadFIFOQueue, Data = dataBlock [address]\<rparr>
     = \<lparr>FunctionCode = 0x18, Data = [ucast (drop_bit 8 address), ucast address]\<rparr>"
  by (simp add: FuncCodeReadFIFOQueue_def dataBlock_eq big_endian_bytes_def)

lemma fifo_count_field:
  "4 \<le> length d \<Longrightarrow>
   unat (BigEndian_Uint16 (drop 2 d)) = 256 * unat (d ! 2) + unat (d ! 3)"
  by (simp add: unat_BigEndian_Uint16)

lemma ReadFIFOQueue_delivered:
  assumes "ClientHandler_transceive c
             \<lparr>FunctionCode = 0x18, Data = [ucast (drop_bit 8 address), ucast address]\<rparr> t
           = (Inr response, t')"
  shows "ClientHandler_ReadFIFOQueue c address t =
     (if length (Data response) < 4
      then (Inl (ErrDataSizeLess (length (Data response)) 4), t')
      else if 256 * unat (Data response ! 0) + unat (Data response ! 1)
                \<noteq> length (Data response) - 1
      then (Inl (ErrDataSizeCount (length (Data response) - 1)
                   (256 * unat (Data response ! 0) + unat (Data response ! 1))), t')
      else if 256 * unat (Data response ! 2) + unat (Data response ! 3) > 31
      then (Inl (ErrFifoCount (256 * unat (Data response ! 2) + unat (Data response ! 3)) 31), t')
      else (Inr (bytesToWordArray (drop 4 (Data response))), t'))"
proof (cases "length (Data response) < 4")
  case True
  with assms show ?thesis
    by (simp add: ClientHandler_ReadFIFOQueue_def Let_def ReadFIFOQueue_request)
next
  case False
  then have "4 \<le> length (Data response)"
    by simp
  from fifo_count_field [OF this] False assms show ?thesis
    by (simp add: ClientHandler_ReadFIFOQueue_def Let_def ReadFIFOQueue_request
        unat_BigEndian_Uint16)
qed

lemma ReadFIFOQueue_failed:
  assumes "ClientHandler_transceive c
             \<lparr>FunctionCode = 0x18, Data = [ucast (drop_bit 8 address), ucast address]\<rparr> t
           = (Inl err, t')"
  shows "ClientHandler_ReadFIFOQueue c address t = (Inl err, t')"
  using assms by (simp add: ClientHandler_ReadFIFOQueue_def Let_def ReadFIFOQueue_request)

text \<open>
  C9.  \<^verbatim>\<open>ReadFIFOQueue(address)\<close> hands to the exchange a request with function code 0x18
  whose data is the big-endian address.  It returns values only when the exchange has
  delivered a response whose big-endian 16-bit byte count, at the start of the payload,
  equals the length of the payload minus one (and whose FIFO count is at most 31); the
  values are then the words of the payload after its first four bytes.  When the exchange
  fails, its error is returned and no values.  A delivered response whose byte count
  differs from the payload length minus one is rejected with a framing error.  So a
  response laid out as the Modbus standard has it, for any number \<open>N\<close> of queued registers
  (byte count \<open>2 + 2 * N\<close>, FIFO count \<open>N\<close>, then \<open>2 * N\<close> bytes of values, a payload of
  \<open>4 + 2 * N\<close> bytes), is rejected with the data-size-mismatch error, a framing error.
\<close>

theorem ReadFIFOQueue_needs_count_one_less_than_payload:
  "(ClientHandler_ReadFIFOQueue c address t = (Inr vals, t'') \<longrightarrow>
      (\<exists>response.
          ClientHandler_transceive c
            \<lparr>FunctionCode = 0x18, Data = [ucast (drop_bit 8 address), ucast address]\<rparr> t
          = (Inr response, t'')
        \<and> 4 \<le> length (Data response)
        \<and> 256 * unat (Data response ! 0) + unat (Data response ! 1)
            = length (Data response) - 1
        \<and> 256 * unat (Data response ! 2) + unat (Data response ! 3) \<le> 31
        \<and> vals = bytesToWordArray (drop 4 (Data response))))
   \<and> (ClientHandler_transceive c
          \<lparr>FunctionCode = 0x18, Data = [ucast (drop_bit 8 address), ucast address]\<rparr> t
        = (Inl err, t')
      \<longrightarrow> ClientHandler_ReadFIFOQueue c address t = (Inl err, t'))
   \<and> (ClientHandler_transceive c
          \<lparr>FunctionCode = 0x18, Data = [ucast (drop_bit 8 address), ucast address]\<rparr> t
        = (Inr response, t')
      \<and> 256 * unat (Data response ! 0) + unat (Data response ! 1) \<noteq> length (Data response) - 1
      \<longrightarrow> (\<exists>e. ClientHandler_ReadFIFOQueue c address t = (Inl e, t')
               \<and> kind_of e = FramingError))
   \<and> (ClientHandler_transceive c
          \<lparr>FunctionCode = 0x18, Data = [ucast (drop_bit 8 address), ucast address]\<rparr> t
        = (Inr response, t')
      \<and> Data response = big_endian_bytes [of_nat (2 + 2 * N), of_nat N] @ regs
      \<and> length regs = 2 * N
      \<longrightarrow> length (Data response) = 4 + 2 * N
          \<and> ClientHandler_ReadFIFOQueue c address t
              = (Inl (ErrDataSizeCount (3 + 2 * N) ((2 + 2 * N) mod 65536)), t')
          \<and> kind_of (ErrDataSizeCount (3 + 2 * N) ((2 + 2 * N) mod 65536)) = FramingError)"
proof (intro conjI impI)
  let ?req = "\<lparr>FunctionCode = 0x18, Data = [ucast (drop_bit 8 address), ucast address]\<rparr>"
  assume ret: "ClientHandler_ReadFIFOQueue c address t = (Inr vals, t'')"
  obtain r u where tr: "ClientHandler_transceive c ?req t = (r, u)"
    by (cases "ClientHandler_transceive c ?req t")
  show "\<exists>response.
          ClientHandler_transceive c ?req t = (Inr response, t'')
        \<and> 4 \<le> length (Data response)
        \<and> 256 * unat (Data response ! 0) + unat (Data response ! 1)
            = length (Data response) - 1
        \<and> 256 * unat (Data response ! 2) + unat (Data response ! 3) \<le> 31
        \<and> vals = bytesToWordArray (drop 4 (Data response))"
  proof (cases r)
    case (Inl err)
    with tr ret ReadFIFOQueue_failed [of c address t err u] show ?thesis
      by simp
  next
    case (Inr response)
    with tr have del: "ClientHandler_transceive c ?req t = (Inr response, u)"
      by simp
    from ret have "u = t''
        \<and> 4 \<le> length (Data response)
        \<and> 256 * unat (Data response ! 0) + unat (Data response ! 1)
            = length (Data response) - 1
        \<and> 256 * unat (Data response ! 2) + unat (Data response ! 3) \<le> 31
        \<and> vals = bytesToWordArray (drop 4 (Data response))"
      unfolding ReadFIFOQueue_delivered [OF del]
      by (auto split: if_splits)
    with del show ?thesis
      by blast
  qed
next
  assume "ClientHandler_transceive c
          \<lparr>FunctionCode = 0x18, Data = [ucast (drop_bit 8 address), ucast address]\<rparr> t
        = (Inl err, t')"
  then show "ClientHandler_ReadFIFOQueue c address t = (Inl err, t')"
    by (rule ReadFIFOQueue_failed)
next
  assume "ClientHandler_transceive c
          \<lparr>FunctionCode = 0x18, Data = [ucast (drop_bit 8 address), ucast address]\<rparr> t
        = (Inr response, t')
      \<and> 256 * unat (Data response ! 0) + unat (Data response ! 1) \<noteq> length (Data response) - 1"
  then have del: "ClientHandler_transceive c
          \<lparr>FunctionCode = 0x18, Data = [ucast (drop_bit 8 address), ucast address]\<rparr> t
        = (Inr response, t')"
    and ne: "256 * unat (Data response ! 0) + unat (Data response ! 1)
        \<noteq> length (Data response) - 1"
    by simp_all
  show "\<exists>e. ClientHandler_ReadFIFOQueue c address t = (Inl e, t') \<and> kind_of e = FramingError"
    unfolding ReadFIFOQueue_delivered [OF del] using ne by simp
next
  assume std: "ClientHandler_transceive c
          \<lparr>FunctionCode = 0x18, Data = [ucast (drop_bit 8 address), ucast address]\<rparr> t
        = (Inr response, t')
      \<and> Data response = big_endian_bytes [of_nat (2 + 2 * N), of_nat N] @ regs
      \<and> length regs = 2 * N"
  then have del: "ClientHandler_transceive c
          \<lparr>FunctionCode = 0x18, Data = [ucast (drop_bit 8 address), ucast address]\<rparr> t
        = (Inr response, t')"
    by simp
  from std have len: "length (Data response) = 4 + 2 * N"
    by (simp add: length_big_endian_bytes)
  from std have "BigEndian_Uint16 (Data response) = (of_nat (2 + 2 * N) :: uint16)"
    by (simp only: BigEndian_Uint16_big_endian_bytes)
  moreover have "unat (of_nat (2 + 2 * N) :: uint16) = (2 + 2 * N) mod 2 ^ LENGTH(16)"
    by (rule unat_of_nat)
  moreover have "(2 :: nat) ^ LENGTH(16) = 65536"
    by simp
  ultimately have "unat (BigEndian_Uint16 (Data response)) = (2 + 2 * N) mod 65536"
    by (simp only:)
  then have count: "256 * unat (Data response ! 0) + unat (Data response ! 1)
      = (2 + 2 * N) mod 65536"
    by (simp only: unat_BigEndian_Uint16)
  have neq: "(2 + 2 * N) mod 65536 \<noteq> length (Data response) - 1"
    using standard_count_mismatch [of N] len by simp
  show "length (Data response) = 4 + 2 * N"
    by (rule len)
  show "ClientHandler_ReadFIFOQueue c address t
                = (Inl (ErrDataSizeCount (3 + 2 * N) ((2 + 2 * N) mod 65536)), t')"
    unfolding ReadFIFOQueue_delivered [OF del] count using neq len by simp
  show "kind_of (ErrDataSizeCount (3 + 2 * N) ((2 + 2 * N) mod 65536)) = FramingError"
    by simp
qed

text \<open>
  The theorem on the mock, for the FIFO pointer at 0x04DE holding the two registers 0x01B8
  and 0x1284.  The reply with byte count 7, one less than the eight payload bytes, is the
  one accepted; the reply with the standard's byte count 6 is rejected; the exception reply
  0x98/01 of a device without the function, and a transport without a reply, give the error
  of the exchange.
\<close>

theorem ReadFIFOQueue_witness:
  "ClientHandler_ReadFIFOQueue mock_client 0x04DE
       (mock_replies [bytes_of '':01180007000201B812848F'' @ asciiEnd])
     = (Inr [0x01B8, 0x1284],
        \<lparr>mock_pending = [],
         mock_calls = [ConnectCall, SetReadTimeoutCall 5000000000,
                       WriteCall (bytes_of '':011804DE05'' @ asciiEnd), ReadCall 513]\<rparr>)
   \<and> (\<exists>response.
          ClientHandler_transceive mock_client \<lparr>FunctionCode = 0x18, Data = [0x04, 0xDE]\<rparr>
            (mock_replies [bytes_of '':01180007000201B812848F'' @ asciiEnd])
          = (Inr response,
             \<lparr>mock_pending = [],
              mock_calls = [ConnectCall, SetReadTimeoutCall 5000000000,
                            WriteCall (bytes_of '':011804DE05'' @ asciiEnd), ReadCall 513]\<rparr>)
        \<and> 256 * unat (Data response ! 0) + unat (Data response ! 1)
            = length (Data response) - 1
        \<and> [0x01B8, 0x1284] = bytesToWordArray (drop 4 (Data response)))
   \<and> ClientHandler_transceive mock_client \<lparr>FunctionCode = 0x18, Data = [0x04, 0xDE]\<rparr>
       (mock_replies [bytes_of '':01180007000201B812848F'' @ asciiEnd])
     = (Inr \<lparr>FunctionCode = 0x18, Data = [0x00, 0x07, 0x00, 0x02, 0x01, 0xB8, 0x12, 0x84]\<rparr>,
        \<lparr>mock_pending = [],
         mock_calls = [ConnectCall, SetReadTimeoutCall 5000000000,
                       WriteCall (bytes_of '':011804DE05'' @ asciiEnd), ReadCall 513]\<rparr>)
   \<and> ClientHandler_transceive mock_client \<lparr>FunctionCode = 0x18, Data = [0x04, 0xDE]\<rparr>
       (mock_replies [bytes_of '':01980166'' @ asciiEnd])
     = (Inl (ErrModbus \<lparr>ModbusError.FunctionCode = 0x98, ExceptionCode = 0x01\<rparr>),
        \<lparr>mock_pending = [],
         mock_calls = [ConnectCall, SetReadTimeoutCall 5000000000,
                       WriteCall (bytes_of '':011804DE05'' @ asciiEnd), ReadCall 513]\<rparr>)
   \<and> ClientHandler_ReadFIFOQueue mock_client 0x04DE
       (mock_replies [bytes_of '':01980166'' @ asciiEnd])
     = (Inl (ErrModbus \<lparr>ModbusError.FunctionCode = 0x98, ExceptionCode = 0x01\<rparr>),
        \<lparr>mock_pending = [],
         mock_calls = [ConnectCall, SetReadTimeoutCall 5000000000,
                       WriteCall (bytes_of '':011804DE05'' @ asciiEnd), ReadCall 513]\<rparr>)
   \<and> ClientHandler_transceive mock_client \<lparr>FunctionCode = 0x18, Data = [0x04, 0xDE]\<rparr>
       (mock_replies [])
     = (Inl (ErrResponseLength 0 9),
        \<lparr>mock_pending = [],
         mock_calls = [ConnectCall, SetReadTimeoutCall 5000000000,
                       WriteCall (bytes_of '':011804DE05'' @ asciiEnd), ReadCall 513]\<rparr>)
   \<and> ClientHandler_ReadFIFOQueue mock_client 0x04DE (mock_replies [])
     = (Inl (ErrResponseLength 0 9),
        \<lparr>mock_pending = [],
         mock_calls = [ConnectCall, SetReadTimeoutCall 5000000000,
                       WriteCall (bytes_of '':011804DE05'' @ asciiEnd), ReadCall 513]\<rparr>)
   \<and> ClientHandler_transceive mock_client \<lparr>FunctionCode = 0x18, Data = [0x04, 0xDE]\<rparr>
       (mock_replies [bytes_of '':01180006000201B8128490'' @ asciiEnd])
     = (Inr \<lparr>FunctionCode = 0x18, Data = [0x00, 0x06, 0x00, 0x02, 0x01, 0xB8, 0x12, 0x84]\<rparr>,
        \<lparr>mock_pending = [],
         mock_calls = [ConnectCall, SetReadTimeoutCall 5000000000,
                       WriteCall (bytes_of '':011804DE05'' @ asciiEnd), ReadCall 513]\<rparr>)
   \<and> 256 * unat ([0x00, 0x06, 0x00, 0x02, 0x01, 0xB8, 0x12, 0x84 :: byte] ! 0)
         + unat ([0x00, 0x06, 0x00, 0x02, 0x01, 0xB8, 0x12, 0x84 :: byte] ! 1)
       \<noteq> length [0x00, 0x06, 0x00, 0x02, 0x01, 0xB8, 0x12, 0x84 :: byte] - 1
   \<and> (\<exists>e. ClientHandler_ReadFIFOQueue mock_client 0x04DE
              (mock_replies [bytes_of '':01180006000201B8128490'' @ asciiEnd])
            = (Inl e,
               \<lparr>mock_pending = [],
                mock_calls = [ConnectCall, SetReadTimeoutCall 5000000000,
                              WriteCall (bytes_of '':011804DE05'' @ asciiEnd),
                              ReadCall 513]\<rparr>)
          \<and> kind_of e = FramingError)
   \<and> [0x00, 0x06, 0x00, 0x02, 0x01, 0xB8, 0x12, 0x84]
       = big_endian_bytes [of_nat (2 + 2 * 2), of_nat 2] @ [0x01, 0xB8, 0x12, 0x84]
   \<and> length [0x01, 0xB8, 0x12, 0x84 :: byte] = 2 * 2
   \<and> ClientHandler_ReadFIFOQueue mock_client 0x04DE
       (mock_replies [bytes_of '':01180006000201B8128490'' @ asciiEnd])
     = (Inl (ErrDataSizeCount 7 6),
        \<lparr>mock_pending = [],
         mock_calls = [ConnectCall, SetReadTimeoutCall 5000000000,
                       WriteCall (bytes_of '':011804DE05'' @ asciiEnd), ReadCall 513]\<rparr>)"
proof -
  let ?req = "\<lparr>FunctionCode = 0x18, Data = [0x04, 0xDE]\<rparr>"
  let ?std = "mock_replies [bytes_of '':01180006000201B8128490'' @ asciiEnd]"
  let ?acc = "mock_replies [bytes_of '':01180007000201B812848F'' @ asciiEnd]"
  let ?exc = "mock_replies [bytes_of '':01980166'' @ asciiEnd]"
  let ?none = "mock_replies []"
  let ?t' = "\<lparr>mock_pending = [],
         mock_calls = [ConnectCall, SetReadTimeoutCall 5000000000,
                       WriteCall (bytes_of '':011804DE05'' @ asciiEnd), ReadCall 513]\<rparr>"
  let ?rstd = "\<lparr>FunctionCode = 0x18, Data = [0x00, 0x06, 0x00, 0x02, 0x01, 0xB8, 0x12, 0x84]\<rparr>"
  let ?racc = "\<lparr>FunctionCode = 0x18, Data = [0x00, 0x07, 0x00, 0x02, 0x01, 0xB8, 0x12, 0x84]\<rparr>"
  let ?mb = "ErrModbus \<lparr>ModbusError.FunctionCode = 0x98, ExceptionCode = 0x01\<rparr>"
  have tstd: "ClientHandler_transceive mock_client ?req ?std = (Inr ?rstd, ?t')"
    by code_simp
  have tacc: "ClientHandler_transceive mock_client ?req ?acc = (Inr ?racc, ?t')"
    by code_simp
  have texc: "ClientHandler_transceive mock_client ?req ?exc = (Inl ?mb, ?t')"
    by code_simp
  have tnone: "ClientHandler_transceive mock_client ?req ?none = (Inl (ErrResponseLength 0 9), ?t')"
    by code_simp
  have accepted: "ClientHandler_ReadFIFOQueue mock_client 0x04DE ?acc = (Inr [0x01B8, 0x1284], ?t')"
    by code_simp
  have differs: "256 * unat (Data ?rstd ! 0) + unat (Data ?rstd ! 1) \<noteq> length (Data ?rstd) - 1"
    by simp
  have layout: "Data ?rstd = big_endian_bytes [of_nat (2 + 2 * 2), of_nat 2] @ [0x01, 0xB8, 0x12, 0x84]
      \<and> length [0x01, 0xB8, 0x12, 0x84 :: byte] = 2 * 2"
    by (simp add: big_endian_bytes_def)
  have req: "\<lparr>FunctionCode = 0x18,
              Data = [ucast (drop_bit 8 (0x04DE :: uint16)), ucast (0x04DE :: uint16)]\<rparr> = ?req"
    by code_simp
  note at_acc = ReadFIFOQueue_needs_count_one_less_than_payload
      [of mock_client "0x04DE" ?acc "[0x01B8, 0x1284]" ?t' ErrLength ?t' ?racc 0 "[]",
       unfolded req]
  note at_std = ReadFIFOQueue_needs_count_one_less_than_payload
      [of mock_client "0x04DE" ?std "[]" ?t' ErrLength ?t' ?rstd 2 "[0x01, 0xB8, 0x12, 0x84]",
       unfolded req]
  note at_exc = ReadFIFOQueue_needs_count_one_less_than_payload
      [of mock_client "0x04DE" ?exc "[]" ?t' ?mb ?t' ?racc 0 "[]", unfolded req]
  note at_none = ReadFIFOQueue_needs_count_one_less_than_payload
      [of mock_client "0x04DE" ?none "[]" ?t' "ErrResponseLength 0 9" ?t' ?racc 0 "[]",
       unfolded req]
  from at_acc accepted
  have only_when: "\<exists>response.
          ClientHandler_transceive mock_client ?req ?acc = (Inr response, ?t')
        \<and> 256 * unat (Data response ! 0) + unat (Data response ! 1)
            = length (Data response) - 1
        \<and> [0x01B8, 0x1284] = bytesToWordArray (drop 4 (Data response))"
    by auto
  from at_exc texc
  have exc: "ClientHandler_ReadFIFOQueue mock_client 0x04DE ?exc = (Inl ?mb, ?t')"
    by simp
  from at_none tnone
  have none: "ClientHandler_ReadFIFOQueue mock_client 0x04DE ?none
      = (Inl (ErrResponseLength 0 9), ?t')"
    by simp
  from at_std tstd differs
  have framing: "\<exists>e. ClientHandler_ReadFIFOQueue mock_client 0x04DE ?std = (Inl e, ?t')
      \<and> kind_of e = FramingError"
    by simp
  from at_std tstd layout
  have rejected: "ClientHandler_ReadFIFOQueue mock_client 0x04DE ?std
      = (Inl (ErrDataSizeCount 7 6), ?t')"
    by simp
  from accepted only_when tacc texc exc tnone none tstd differs framing layout rejected
  show ?thesis
    by simp
qed

section \<open>Writing a single coil\<close>

lemma high_byte_of_pair:
  "ucast (drop_bit 8 (ucast (lo :: byte) OR push_bit 8 (ucast (hi :: byte)) :: uint16)) = hi"
  by (rule bit_word_eqI) (auto simp add: bit_simps dest: bit_imp_le_length)

lemma low_byte_of_pair:
  "ucast (ucast (lo :: byte) OR push_bit 8 (ucast (hi :: byte)) :: uint16) = lo"
  by (rule bit_word_eqI) (auto simp add: bit_simps)

lemma byte_pair_eq_iff:
  "(ucast (lo :: byte) OR push_bit 8 (ucast (hi :: byte)) = (w :: uint16))
     \<longleftrightarrow> hi = ucast (drop_bit 8 w) \<and> lo = ucast w"
proof
  assume "ucast lo OR push_bit 8 (ucast hi) = w"
  then show "hi = ucast (drop_bit 8 w) \<and> lo = ucast w"
    using high_byte_of_pair [of lo hi] low_byte_of_pair [of lo hi] by simp
next
  assume "hi = ucast (drop_bit 8 w) \<and> lo = ucast w"
  then show "ucast lo OR push_bit 8 (ucast hi) = w"
    by (simp add: uint16_of_bytes)
qed

lemma BigEndian_Uint16_eq_iff:
  "BigEndian_Uint16 (hi # lo # rest) = w \<longleftrightarrow> hi = ucast (drop_bit 8 w) \<and> lo = ucast w"
  by (simp add: BigEndian_Uint16_def byte_pair_eq_iff)

lemma length_four: "length xs = 4 \<Longrightarrow> \<exists>a b c d. xs = [a, b, c, d]"
  by (cases xs; simp; cases "tl xs"; simp; cases "tl (tl xs)"; simp; cases "tl (tl (tl xs))"; simp)

lemma echo_check:
  assumes "length d = 4"
  shows "(address = BigEndian_Uint16 d \<and> val = BigEndian_Uint16 (drop 2 d))
     \<longleftrightarrow> d = [ucast (drop_bit 8 address), ucast address, ucast (drop_bit 8 val), ucast val]"
proof -
  from assms obtain a b c e where d: "d = [a, b, c, e]"
    using length_four by blast
  have "address = BigEndian_Uint16 d \<longleftrightarrow> a = ucast (drop_bit 8 address) \<and> b = ucast address"
    using BigEndian_Uint16_eq_iff [of a b "[c, e]" address] by (auto simp add: d)
  moreover have "val = BigEndian_Uint16 (drop 2 d) \<longleftrightarrow> c = ucast (drop_bit 8 val) \<and> e = ucast val"
    using BigEndian_Uint16_eq_iff [of c e "[]" val] by (auto simp add: d)
  ultimately show ?thesis
    by (auto simp add: d)
qed

lemma WriteSingleCoil_request:
  "dataBlock [address, if coil then 0xFF00 else 0x0000]
     = [ucast (drop_bit 8 address), ucast address, if coil then 0xFF else 0x00, 0x00]"
  by (simp add: dataBlock_eq big_endian_bytes_def)

text \<open>
  C6.  For every address, \<^verbatim>\<open>WriteSingleCoil(address, coil)\<close> hands to the exchange a request
  with function code 5 whose data is the big-endian address followed by FF 00 for true and
  00 00 for false.  When the exchange fails, its error is returned.  When it delivers a
  response, the result is \<^verbatim>\<open>nil\<close> exactly when the response payload is these same four
  bytes; a payload of another length, with another address or with another value yields a
  framing error.
\<close>

theorem WriteSingleCoil_echo:
  "(ClientHandler_transceive c
        \<lparr>FunctionCode = 0x05,
         Data = [ucast (drop_bit 8 address), ucast address, if coil then 0xFF else 0x00, 0x00]\<rparr> t
      = (Inl err, t')
    \<longrightarrow> ClientHandler_WriteSingleCoil c address coil t = (Some err, t'))
   \<and> (ClientHandler_transceive c
        \<lparr>FunctionCode = 0x05,
         Data = [ucast (drop_bit 8 address), ucast address, if coil then 0xFF else 0x00, 0x00]\<rparr> t
      = (Inr response, t')
    \<longrightarrow> (ClientHandler_WriteSingleCoil c address coil t = (None, t')
           \<longleftrightarrow> Data response
               = [ucast (drop_bit 8 address), ucast address, if coil then 0xFF else 0x00, 0x00])
       \<and> (Data response
             \<noteq> [ucast (drop_bit 8 address), ucast address, if coil then 0xFF else 0x00, 0x00]
           \<longrightarrow> (\<exists>e. ClientHandler_WriteSingleCoil c address coil t = (Some e, t')
                    \<and> kind_of e = FramingError)))"
proof (intro conjI impI)
  assume "ClientHandler_transceive c
        \<lparr>FunctionCode = 0x05,
         Data = [ucast (drop_bit 8 address), ucast address, if coil then 0xFF else 0x00, 0x00]\<rparr> t
      = (Inl err, t')"
  then show "ClientHandler_WriteSingleCoil c address coil t = (Some err, t')"
    by (simp add: ClientHandler_WriteSingleCoil_def Let_def WriteSingleCoil_request
        FuncCodeWriteSingleCoil_def)
next
  let ?echo = "[ucast (drop_bit 8 address), ucast address, if coil then 0xFF else 0x00, 0x00]
                 :: byte list"
  let ?val = "if coil then 0xFF00 else 0x0000 :: uint16"
  assume tr: "ClientHandler_transceive c \<lparr>FunctionCode = 0x05, Data = ?echo\<rparr> t
      = (Inr response, t')"
  have val: "[ucast (drop_bit 8 address), ucast address, ucast (drop_bit 8 ?val), ucast ?val]
      = ?echo"
    by simp
  have unfolded: "ClientHandler_WriteSingleCoil c address coil t =
      (if length (Data response) \<noteq> 4
       then (Some (ErrDataSizeExpected (length (Data response)) 4), t')
       else if address \<noteq> BigEndian_Uint16 (Data response)
       then (Some (ErrAddress (BigEndian_Uint16 (Data response)) address), t')
       else if ?val \<noteq> BigEndian_Uint16 (drop 2 (Data response))
       then (Some (ErrValue (BigEndian_Uint16 (drop 2 (Data response))) ?val), t')
       else (None, t'))"
    using tr
    by (simp add: ClientHandler_WriteSingleCoil_def Let_def WriteSingleCoil_request
        FuncCodeWriteSingleCoil_def)
  show "ClientHandler_WriteSingleCoil c address coil t = (None, t') \<longleftrightarrow> Data response = ?echo"
  proof (cases "length (Data response) = 4")
    case True
    from echo_check [OF True, of address ?val] show ?thesis
      unfolding unfolded val by (auto simp add: True)
  next
    case False
    then have "Data response \<noteq> ?echo" by auto
    with False show ?thesis
      unfolding unfolded by simp
  qed
  show "\<exists>e. ClientHandler_WriteSingleCoil c address coil t = (Some e, t')
            \<and> kind_of e = FramingError"
    if ne: "Data response \<noteq> ?echo"
  proof (cases "length (Data response) = 4")
    case True
    from echo_check [OF True, of address ?val] ne
    have "address \<noteq> BigEndian_Uint16 (Data response)
          \<or> ?val \<noteq> BigEndian_Uint16 (drop 2 (Data response))"
      unfolding val by blast
    then show ?thesis
      unfolding unfolded by (auto simp add: True)
  next
    case False
    then show ?thesis
      unfolding unfolded by simp
  qed
qed


text \<open>
  The theorem on the mock, for \<^verbatim>\<open>WriteSingleCoil(0xAC, true)\<close>: the frame written carries
  00 AC FF 00; the exact echo gives \<^verbatim>\<open>nil\<close>; an echo of the value 0xFF01 gives the value
  mismatch; a transport without a reply gives the error of the exchange.
\<close>

theorem WriteSingleCoil_witness:
  "ClientHandler_transceive mock_client \<lparr>FunctionCode = 0x05, Data = [0x00, 0xAC, 0xFF, 0x00]\<rparr>
       (mock_replies [bytes_of '':010500ACFF004F'' @ asciiEnd])
     = (Inr \<lparr>FunctionCode = 0x05, Data = [0x00, 0xAC, 0xFF, 0x00]\<rparr>,
        \<lparr>mock_pending = [],
         mock_calls = [ConnectCall, SetReadTimeoutCall 5000000000,
                       WriteCall (bytes_of '':010500ACFF004F'' @ asciiEnd), ReadCall 513]\<rparr>)
   \<and> ClientHandler_WriteSingleCoil mock_client 0x00AC True
       (mock_replies [bytes_of '':010500ACFF004F'' @ asciiEnd])
     = (None,
        \<lparr>mock_pending = [],
         mock_calls = [ConnectCall, SetReadTimeoutCall 5000000000,
                       WriteCall (bytes_of '':010500ACFF004F'' @ asciiEnd), ReadCall 513]\<rparr>)
   \<and> ClientHandler_transceive mock_client \<lparr>FunctionCode = 0x05, Data = [0x00, 0xAC, 0xFF, 0x00]\<rparr>
       (mock_replies [bytes_of '':010500ACFF014E'' @ asciiEnd])
     = (Inr \<lparr>FunctionCode = 0x05, Data = [0x00, 0xAC, 0xFF, 0x01]\<rparr>,
        \<lparr>mock_pending = [],
         mock_calls = [ConnectCall, SetReadTimeoutCall 5000000000,
                       WriteCall (bytes_of '':010500ACFF004F'' @ asciiEnd), ReadCall 513]\<rparr>)
   \<and> (\<exists>e. ClientHandler_WriteSingleCoil mock_client 0x00AC True
              (mock_replies [bytes_of '':010500ACFF014E'' @ asciiEnd])
            = (Some e,
               \<lparr>mock_pending = [],
                mock_calls = [ConnectCall, SetReadTimeoutCall 5000000000,
                              WriteCall (bytes_of '':010500ACFF004F'' @ asciiEnd),
                              ReadCall 513]\<rparr>)
          \<and> kind_of e = FramingError)
   \<and> fst (ClientHandler_WriteSingleCoil mock_client 0x00AC True
            (mock_replies [bytes_of '':010500ACFF014E'' @ asciiEnd]))
     = Some (ErrValue 0xFF01 0xFF00)
   \<and> ClientHandler_transceive mock_client \<lparr>FunctionCode = 0x05, Data = [0x00, 0xAC, 0xFF, 0x00]\<rparr>
       (mock_replies [])
     = (Inl (ErrResponseLength 0 9),
        \<lparr>mock_pending = [],
         mock_calls = [ConnectCall, SetReadTimeoutCall 5000000000,
                       WriteCall (bytes_of '':010500ACFF004F'' @ asciiEnd), ReadCall 513]\<rparr>)
   \<and> ClientHandler_WriteSingleCoil mock_client 0x00AC True (mock_replies [])
     = (Some (ErrResponseLength 0 9),
        \<lparr>mock_pending = [],
         mock_calls = [ConnectCall, SetReadTimeoutCall 5000000000,
                       WriteCall (bytes_of '':010500ACFF004F'' @ asciiEnd), ReadCall 513]\<rparr>)"
proof -
  let ?req = "\<lparr>FunctionCode = 0x05, Data = [0x00, 0xAC, 0xFF, 0x00]\<rparr>"
  let ?good = "mock_replies [bytes_of '':010500ACFF004F'' @ asciiEnd]"
  let ?bad = "mock_replies [bytes_of '':010500ACFF014E'' @ asciiEnd]"
  let ?none = "mock_replies []"
  let ?t' = "\<lparr>mock_pending = [],
         mock_calls = [ConnectCall, SetReadTimeoutCall 5000000000,
                       WriteCall (bytes_of '':010500ACFF004F'' @ asciiEnd), ReadCall 513]\<rparr>"
  let ?rgood = "\<lparr>FunctionCode = 0x05, Data = [0x00, 0xAC, 0xFF, 0x00]\<rparr>"
  let ?rbad = "\<lparr>FunctionCode = 0x05, Data = [0x00, 0xAC, 0xFF, 0x01]\<rparr>"
  have good: "ClientHandler_transceive mock_client ?req ?good = (Inr ?rgood, ?t')"
    by code_simp
  have bad: "ClientHandler_transceive mock_client ?req ?bad = (Inr ?rbad, ?t')"
    by code_simp
  have none: "ClientHandler_transceive mock_client ?req ?none = (Inl (ErrResponseLength 0 9), ?t')"
    by code_simp
  have explicit: "fst (ClientHandler_WriteSingleCoil mock_client 0x00AC True ?bad)
      = Some (ErrValue 0xFF01 0xFF00)"
    by code_simp
  from WriteSingleCoil_echo [of mock_client "0x00AC" True ?good "ErrLength" ?t' ?rgood] good
  have ok: "ClientHandler_WriteSingleCoil mock_client 0x00AC True ?good = (None, ?t')"
    by simp
  from WriteSingleCoil_echo [of mock_client "0x00AC" True ?bad "ErrLength" ?t' ?rbad] bad
  have rejected: "\<exists>e. ClientHandler_WriteSingleCoil mock_client 0x00AC True ?bad = (Some e, ?t')
      \<and> kind_of e = FramingError"
    by simp
  from WriteSingleCoil_echo [of mock_client "0x00AC" True ?none "ErrResponseLength 0 9" ?t' ?rgood]
    none
  have failed: "ClientHandler_WriteSingleCoil mock_client 0x00AC True ?none
      = (Some (ErrResponseLength 0 9), ?t')"
    by simp
  from good bad none explicit ok rejected failed show ?thesis
    by blast
qed

section \<open>Reading coils and discrete inputs\<close>

declare unpack_bit_loop.simps [simp del] unpack_byte_loop.simps [simp del]

lemma length_unpack_bit_loop [simp]:
  "length (unpack_bit_loop coilStates i j coils) = length coils"
proof (induction coilStates i j coils rule: unpack_bit_loop.induct)
  case (1 coilStates i j coils)
  then show ?case
    by (subst unpack_bit_loop.simps) simp
qed

lemma length_unpack_byte_loop [simp]:
  "length (unpack_byte_loop coilStates byteCount i coils) = length coils"
proof (induction coilStates byteCount i coils rule: unpack_byte_loop.induct)
  case (1 coilStates byteCount i coils)
  then show ?case
    by (subst unpack_byte_loop.simps) simp
qed

lemma unpack_bit_loop_nth:
  "k < length coils \<Longrightarrow>
   unpack_bit_loop coilStates i j coils ! k =
     (if i * 8 + j \<le> k \<and> k < i * 8 + 8 then bit (coilStates ! i) (k - i * 8) else coils ! k)"
proof (induction coilStates i j coils rule: unpack_bit_loop.induct)
  case (1 coilStates i j coils)
  show ?case
  proof (cases "j < 8")
    case False
    then have out: "\<not> (i * 8 + j \<le> k \<and> k < i * 8 + 8)"
      by arith
    have "unpack_bit_loop coilStates i j coils = coils"
      using False by (subst unpack_bit_loop.simps) simp
    then show ?thesis
      by (simp only: out if_False)
  next
    case True
    let ?coils = "coils[i * 8 + j := (coilStates ! i AND push_bit j 1) \<noteq> 0]"
    have step: "unpack_bit_loop coilStates i j coils = unpack_bit_loop coilStates i (j + 1) ?coils"
      using True by (subst unpack_bit_loop.simps) simp
    have IH: "unpack_bit_loop coilStates i (j + 1) ?coils ! k =
        (if i * 8 + (j + 1) \<le> k \<and> k < i * 8 + 8 then bit (coilStates ! i) (k - i * 8)
         else ?coils ! k)"
      using "1.IH" [OF True] "1.prems" by simp
    show ?thesis
    proof (cases "k = i * 8 + j")
      case here: True
      have "?coils ! k = bit (coilStates ! i) j"
        using "1.prems" here by (simp add: bit_iff_and_push_bit_not_eq_0)
      moreover have "\<not> (i * 8 + (j + 1) \<le> k \<and> k < i * 8 + 8)"
        using here by arith
      moreover have "i * 8 + j \<le> k \<and> k < i * 8 + 8"
        using here True by arith
      moreover have "k - i * 8 = j"
        using here by arith
      ultimately show ?thesis
        unfolding step IH by simp
    next
      case other: False
      have same: "?coils ! k = coils ! k"
        using other by simp
      have "(i * 8 + (j + 1) \<le> k \<and> k < i * 8 + 8) = (i * 8 + j \<le> k \<and> k < i * 8 + 8)"
        using other by arith
      then show ?thesis
        unfolding step IH same by simp
    qed
  qed
qed

lemma in_byte:
  assumes "i * 8 \<le> (k :: nat)" "k < i * 8 + 8"
  shows "k div 8 = i" and "k mod 8 = k - i * 8"
proof -
  show d: "k div 8 = i"
    using assms by (intro div_nat_eqI) simp_all
  have "k = 8 * (k div 8) + k mod 8"
    by simp
  with d show "k mod 8 = k - i * 8"
    by arith
qed

lemma unpack_byte_loop_nth:
  "k < length coils \<Longrightarrow>
   unpack_byte_loop coilStates byteCount i coils ! k =
     (if i * 8 \<le> k \<and> k < byteCount * 8 then bit (coilStates ! (k div 8)) (k mod 8)
      else coils ! k)"
proof (induction coilStates byteCount i coils rule: unpack_byte_loop.induct)
  case (1 coilStates byteCount i coils)
  show ?case
  proof (cases "i < byteCount")
    case False
    then have out: "\<not> (i * 8 \<le> k \<and> k < byteCount * 8)"
      by arith
    have "unpack_byte_loop coilStates byteCount i coils = coils"
      using False by (subst unpack_byte_loop.simps) simp
    then show ?thesis
      by (simp only: out if_False)
  next
    case True
    let ?coils = "unpack_bit_loop coilStates i 0 coils"
    have step: "unpack_byte_loop coilStates byteCount i coils
        = unpack_byte_loop coilStates byteCount (i + 1) ?coils"
      using True by (subst unpack_byte_loop.simps) simp
    have IH: "unpack_byte_loop coilStates byteCount (i + 1) ?coils ! k =
        (if (i + 1) * 8 \<le> k \<and> k < byteCount * 8 then bit (coilStates ! (k div 8)) (k mod 8)
         else ?coils ! k)"
      using "1.IH" [OF True] "1.prems" by simp
    have inner: "?coils ! k =
        (if i * 8 \<le> k \<and> k < i * 8 + 8 then bit (coilStates ! i) (k - i * 8) else coils ! k)"
      using unpack_bit_loop_nth [OF "1.prems", of coilStates i 0] by simp
    show ?thesis
    proof (cases "i * 8 \<le> k \<and> k < i * 8 + 8")
      case here: True
      then have dm: "k div 8 = i" "k mod 8 = k - i * 8"
        using in_byte [of i k] by simp_all
      have "\<not> ((i + 1) * 8 \<le> k \<and> k < byteCount * 8)"
        using here by arith
      moreover have "i * 8 \<le> k \<and> k < byteCount * 8"
        using here True by arith
      ultimately show ?thesis
        unfolding step IH inner using here dm by simp
    next
      case other: False
      have inner': "?coils ! k = coils ! k"
        by (simp only: inner other if_False)
      have "((i + 1) * 8 \<le> k \<and> k < byteCount * 8) = (i * 8 \<le> k \<and> k < byteCount * 8)"
        using other by arith
      then show ?thesis
        unfolding step IH inner' by simp
    qed
  qed
qed


lemma transceive_Inr:
  assumes "ClientHandler_transceive c request t = (Inr response, t')"
  shows "Data response \<noteq> []" and "FunctionCode response = FunctionCode request"
  using assms
  by (auto simp add: ClientHandler_transceive_def
      split: sum.splits prod.splits option.splits if_splits)

lemma read_bits_request:
  "dataBlock [address, quantity]
     = [ucast (drop_bit 8 address), ucast address, ucast (drop_bit 8 quantity), ucast quantity]"
  by (simp add: dataBlock_eq big_endian_bytes_def)

lemma quantity_range:
  "\<not> (quantity < 1 \<or> quantity > 2000) \<longleftrightarrow> 1 \<le> quantity \<and> quantity \<le> (2000 :: uint16)"
  unfolding word_le_nat_alt word_less_nat_alt by simp arith

lemma unpacked_bits:
  assumes "k < unat quantity" "unat quantity \<le> 8 * n"
  shows "take (unat quantity) (unpack_byte_loop coilStates n 0 (replicate (n * 8) False)) ! k
           = bit (coilStates ! (k div 8)) (k mod 8)"
proof -
  have k: "k < n * 8"
    using assms by arith
  then have "unpack_byte_loop coilStates n 0 (replicate (n * 8) False) ! k
      = bit (coilStates ! (k div 8)) (k mod 8)"
    by (simp add: unpack_byte_loop_nth)
  with assms show ?thesis
    by simp
qed

lemma ReadCoils_accepted:
  assumes tr: "ClientHandler_transceive c
                 \<lparr>FunctionCode = 0x01,
                  Data = [ucast (drop_bit 8 address), ucast address,
                          ucast (drop_bit 8 quantity), ucast quantity]\<rparr> t
               = (Inr response, t')"
    and q: "1 \<le> quantity" "quantity \<le> 2000"
    and bc: "unat (Data response ! 0) = length (Data response) - 1"
  shows "ClientHandler_ReadCoils c address quantity t =
     (if 8 * (length (Data response) - 1) < unat quantity then (Inl Panic, t')
      else (Inr (take (unat quantity)
                  (unpack_byte_loop (drop 1 (Data response)) (length (Data response) - 1) 0
                     (replicate ((length (Data response) - 1) * 8) False))), t'))"
proof -
  have ne: "\<not> length (Data response) < 1"
    using transceive_Inr(1) [OF tr] by (cases "Data response") simp_all
  have range: "\<not> (quantity < 1 \<or> quantity > 2000)"
    using q quantity_range [of quantity] by blast
  show ?thesis
    unfolding ClientHandler_ReadCoils_def
    by (simp only: range if_False Let_def read_bits_request FuncCodeReadCoils_def tr
        prod.case sum.case ne bc)
      (simp add: mult.commute)
qed

lemma ReadDiscreteInputs_accepted:
  assumes tr: "ClientHandler_transceive c
                 \<lparr>FunctionCode = 0x02,
                  Data = [ucast (drop_bit 8 address), ucast address,
                          ucast (drop_bit 8 quantity), ucast quantity]\<rparr> t
               = (Inr response, t')"
    and q: "1 \<le> quantity" "quantity \<le> 2000"
    and bc: "unat (Data response ! 0) = length (Data response) - 1"
  shows "ClientHandler_ReadDiscreteInputs c address quantity t =
     (if 8 * (length (Data response) - 1) < unat quantity then (Inl Panic, t')
      else (Inr (take (unat quantity)
                  (unpack_byte_loop (drop 1 (Data response)) (length (Data response) - 1) 0
                     (replicate ((length (Data response) - 1) * 8) False))), t'))"
proof -
  have ne: "\<not> length (Data response) < 1"
    using transceive_Inr(1) [OF tr] by (cases "Data response") simp_all
  have range: "\<not> (quantity < 1 \<or> quantity > 2000)"
    using q quantity_range [of quantity] by blast
  show ?thesis
    unfolding ClientHandler_ReadDiscreteInputs_def
    by (simp only: range if_False Let_def read_bits_request FuncCodeReadDiscreteInputs_def tr
        prod.case sum.case ne bc)
      (simp add: mult.commute)
qed


lemma accepted_bits:
  assumes bc: "unat (Data response ! 0) = length (Data response) - 1"
    and cover: "unat quantity \<le> 8 * (length (Data response) - 1)"
  shows "length (take (unat quantity)
                  (unpack_byte_loop (drop 1 (Data response)) (length (Data response) - 1) 0
                     (replicate ((length (Data response) - 1) * 8) False))) = unat quantity"
    and "\<forall>i<unat quantity.
           take (unat quantity)
                  (unpack_byte_loop (drop 1 (Data response)) (length (Data response) - 1) 0
                     (replicate ((length (Data response) - 1) * 8) False)) ! i
           = bit (Data response ! (1 + i div 8)) (i mod 8)"
proof -
  let ?n = "length (Data response) - 1"
  show "length (take (unat quantity)
                  (unpack_byte_loop (drop 1 (Data response)) ?n 0
                     (replicate (?n * 8) False))) = unat quantity"
    using cover by simp
  show "\<forall>i<unat quantity.
           take (unat quantity)
                  (unpack_byte_loop (drop 1 (Data response)) ?n 0
                     (replicate (?n * 8) False)) ! i
           = bit (Data response ! (1 + i div 8)) (i mod 8)"
  proof (intro allI impI)
    fix i
    assume i: "i < unat quantity"
    then have "i div 8 < ?n"
      using cover by arith
    then have "drop 1 (Data response) ! (i div 8) = Data response ! (1 + i div 8)"
      by simp
    with unpacked_bits [OF i cover, of "drop 1 (Data response)"]
    show "take (unat quantity)
                  (unpack_byte_loop (drop 1 (Data response)) ?n 0
                     (replicate (?n * 8) False)) ! i
           = bit (Data response ! (1 + i div 8)) (i mod 8)"
      by simp
  qed
qed

text \<open>
  C5 (amended).  For every quantity in 1..2000 and every accepted response whose leading
  byte count equals the remaining payload length and whose bit field covers the request
  (\<open>quantity \<le> 8 * byteCount\<close>), \<^verbatim>\<open>ReadCoils\<close> and \<^verbatim>\<open>ReadDiscreteInputs\<close> return exactly
  \<open>quantity\<close> booleans, element \<open>i\<close> being bit \<open>i mod 8\<close> of payload byte \<open>1 + i div 8\<close>
  (least-significant bit first).  The pad bits beyond \<open>quantity\<close> do not occur in the result
  and are not checked.
\<close>

theorem read_bits_returns_requested_bits:
  assumes "1 \<le> quantity" and "quantity \<le> 2000"
    and "unat (Data response ! 0) = length (Data response) - 1"
    and "unat quantity \<le> 8 * (length (Data response) - 1)"
  shows "(ClientHandler_transceive c
            \<lparr>FunctionCode = 0x01,
             Data = [ucast (drop_bit 8 address), ucast address,
                     ucast (drop_bit 8 quantity), ucast quantity]\<rparr> t
          = (Inr response, t')
          \<longrightarrow> (\<exists>coils. ClientHandler_ReadCoils c address quantity t = (Inr coils, t')
                 \<and> length coils = unat quantity
                 \<and> (\<forall>i<unat quantity.
                       coils ! i = bit (Data response ! (1 + i div 8)) (i mod 8))))
       \<and> (ClientHandler_transceive c
            \<lparr>FunctionCode = 0x02,
             Data = [ucast (drop_bit 8 address), ucast address,
                     ucast (drop_bit 8 quantity), ucast quantity]\<rparr> t
          = (Inr response, t')
          \<longrightarrow> (\<exists>inputs. ClientHandler_ReadDiscreteInputs c address quantity t = (Inr inputs, t')
                 \<and> length inputs = unat quantity
                 \<and> (\<forall>i<unat quantity.
                       inputs ! i = bit (Data response ! (1 + i div 8)) (i mod 8))))"
proof (intro conjI impI)
  have enough: "\<not> 8 * (length (Data response) - 1) < unat quantity"
    using assms(4) by simp
  {
    assume tr: "ClientHandler_transceive c
            \<lparr>FunctionCode = 0x01,
             Data = [ucast (drop_bit 8 address), ucast address,
                     ucast (drop_bit 8 quantity), ucast quantity]\<rparr> t
          = (Inr response, t')"
    show "\<exists>coils. ClientHandler_ReadCoils c address quantity t = (Inr coils, t')
                 \<and> length coils = unat quantity
                 \<and> (\<forall>i<unat quantity.
                       coils ! i = bit (Data response ! (1 + i div 8)) (i mod 8))"
      using ReadCoils_accepted [OF tr assms(1,2,3)] accepted_bits [OF assms(3,4)] enough
      by (intro exI conjI) (simp only: if_False)
  next
    assume tr: "ClientHandler_transceive c
            \<lparr>FunctionCode = 0x02,
             Data = [ucast (drop_bit 8 address), ucast address,
                     ucast (drop_bit 8 quantity), ucast quantity]\<rparr> t
          = (Inr response, t')"
    show "\<exists>inputs. ClientHandler_ReadDiscreteInputs c address quantity t = (Inr inputs, t')
                 \<and> length inputs = unat quantity
                 \<and> (\<forall>i<unat quantity.
                       inputs ! i = bit (Data response ! (1 + i div 8)) (i mod 8))"
      using ReadDiscreteInputs_accepted [OF tr assms(1,2,3)] accepted_bits [OF assms(3,4)] enough
      by (intro exI conjI) (simp only: if_False)
  }
qed


text \<open>
  The theorem on the mock: \<^verbatim>\<open>ReadCoils(0x13, 0x13)\<close> answered by the three bytes CD 6B 05.
  Nineteen values come back; the eleventh is bit 2 of the second byte.
\<close>

theorem read_bits_witness:
  "(1 :: uint16) \<le> 0x13 \<and> (0x13 :: uint16) \<le> 2000
   \<and> unat ([0x03, 0xCD, 0x6B, 0x05 :: byte] ! 0) = length [0x03, 0xCD, 0x6B, 0x05 :: byte] - 1
   \<and> unat (0x13 :: uint16) \<le> 8 * (length [0x03, 0xCD, 0x6B, 0x05 :: byte] - 1)
   \<and> ClientHandler_transceive mock_client
         \<lparr>FunctionCode = 0x01, Data = [0x00, 0x13, 0x00, 0x13]\<rparr>
         (mock_replies [bytes_of '':010103CD6B05BE'' @ asciiEnd])
       = (Inr \<lparr>FunctionCode = 0x01, Data = [0x03, 0xCD, 0x6B, 0x05]\<rparr>,
          \<lparr>mock_pending = [],
           mock_calls = [ConnectCall, SetReadTimeoutCall 5000000000,
                         WriteCall (bytes_of '':010100130013D8'' @ asciiEnd), ReadCall 513]\<rparr>)
   \<and> (\<exists>coils. ClientHandler_ReadCoils mock_client 0x13 0x13
                   (mock_replies [bytes_of '':010103CD6B05BE'' @ asciiEnd])
                 = (Inr coils,
                    \<lparr>mock_pending = [],
                     mock_calls = [ConnectCall, SetReadTimeoutCall 5000000000,
                                   WriteCall (bytes_of '':010100130013D8'' @ asciiEnd),
                                   ReadCall 513]\<rparr>)
               \<and> length coils = 19
               \<and> coils ! 10 = bit (0x6B :: byte) 2)
   \<and> fst (ClientHandler_ReadCoils mock_client 0x13 0x13
            (mock_replies [bytes_of '':010103CD6B05BE'' @ asciiEnd]))
       = Inr [True, False, True, True, False, False, True, True,
              True, True, False, True, False, True, True, False,
              True, False, True]
   \<and> fst (ClientHandler_ReadDiscreteInputs mock_client 0x13 0x13
            (mock_replies [bytes_of '':010203CD6B05BD'' @ asciiEnd]))
       = Inr [True, False, True, True, False, False, True, True,
              True, True, False, True, False, True, True, False,
              True, False, True]"
proof -
  let ?reply = "mock_replies [bytes_of '':010103CD6B05BE'' @ asciiEnd]"
  let ?t' = "\<lparr>mock_pending = [],
           mock_calls = [ConnectCall, SetReadTimeoutCall 5000000000,
                         WriteCall (bytes_of '':010100130013D8'' @ asciiEnd), ReadCall 513]\<rparr>"
  let ?response = "\<lparr>FunctionCode = 0x01, Data = [0x03, 0xCD, 0x6B, 0x05]\<rparr>"
  have h1: "(1 :: uint16) \<le> 0x13" and h2: "(0x13 :: uint16) \<le> 2000"
    by simp_all
  have h3: "unat (Data ?response ! 0) = length (Data ?response) - 1"
    by simp
  have h4: "unat (0x13 :: uint16) \<le> 8 * (length (Data ?response) - 1)"
    by simp
  have tr: "ClientHandler_transceive mock_client
              \<lparr>FunctionCode = 0x01, Data = [0x00, 0x13, 0x00, 0x13]\<rparr> ?reply
            = (Inr ?response, ?t')"
    by code_simp
  from read_bits_returns_requested_bits [OF h1 h2 h3 h4, of mock_client "0x13" ?reply ?t'] tr
  obtain coils where coils:
    "ClientHandler_ReadCoils mock_client 0x13 0x13 ?reply = (Inr coils, ?t')"
    "length coils = unat (0x13 :: uint16)"
    "\<forall>i<unat (0x13 :: uint16). coils ! i = bit (Data ?response ! (1 + i div 8)) (i mod 8)"
    by auto
  from coils(3) have "coils ! 10 = bit (Data ?response ! (1 + 10 div 8)) (10 mod 8)"
    by simp
  then have bit10: "coils ! 10 = bit (0x6B :: byte) 2"
    by simp
  from coils(2) have len: "length coils = 19"
    by simp
  have ex: "\<exists>coils. ClientHandler_ReadCoils mock_client 0x13 0x13 ?reply = (Inr coils, ?t')
               \<and> length coils = 19 \<and> coils ! 10 = bit (0x6B :: byte) 2"
    using coils(1) len bit10 by blast
  have all: "fst (ClientHandler_ReadCoils mock_client 0x13 0x13 ?reply)
       = Inr [True, False, True, True, False, False, True, True,
              True, True, False, True, False, True, True, False,
              True, False, True]"
    by code_simp
  have inputs: "fst (ClientHandler_ReadDiscreteInputs mock_client 0x13 0x13
            (mock_replies [bytes_of '':010203CD6B05BD'' @ asciiEnd]))
       = Inr [True, False, True, True, False, False, True, True,
              True, True, False, True, False, True, True, False,
              True, False, True]"
    by code_simp
  from h1 h2 h3 h4 tr ex all inputs show ?thesis
    by simp
qed

text \<open>
  C5 as stated fails: the reply to \<^verbatim>\<open>ReadCoils(0x13, 0x13)\<close> below is accepted by the
  exchange and its byte count 2 equals the remaining payload length, but sixteen bits do not
  hold nineteen coils, and the call ends in the run-time panic of \<^verbatim>\<open>coils[0:quantity]\<close>
  instead of returning nineteen booleans.  The same holds for \<^verbatim>\<open>ReadDiscreteInputs\<close>.
\<close>

theorem read_bits_short_reply_returns_no_slice:
  "ClientHandler_transceive mock_client
       \<lparr>FunctionCode = 0x01, Data = [0x00, 0x13, 0x00, 0x13]\<rparr>
       (mock_replies [bytes_of '':010102CD6BC4'' @ asciiEnd])
     = (Inr \<lparr>FunctionCode = 0x01, Data = [0x02, 0xCD, 0x6B]\<rparr>,
        \<lparr>mock_pending = [],
         mock_calls = [ConnectCall, SetReadTimeoutCall 5000000000,
                       WriteCall (bytes_of '':010100130013D8'' @ asciiEnd), ReadCall 513]\<rparr>)
   \<and> unat ([0x02, 0xCD, 0x6B :: byte] ! 0) = length [0x02, 0xCD, 0x6B :: byte] - 1
   \<and> fst (ClientHandler_ReadCoils mock_client 0x13 0x13
            (mock_replies [bytes_of '':010102CD6BC4'' @ asciiEnd]))
     = Inl Panic
   \<and> fst (ClientHandler_transceive mock_client
            \<lparr>FunctionCode = 0x02, Data = [0x00, 0x13, 0x00, 0x13]\<rparr>
            (mock_replies [bytes_of '':010202ACDB74'' @ asciiEnd]))
     = Inr \<lparr>FunctionCode = 0x02, Data = [0x02, 0xAC, 0xDB]\<rparr>
   \<and> fst (ClientHandler_ReadDiscreteInputs mock_client 0x13 0x13
            (mock_replies [bytes_of '':010202ACDB74'' @ asciiEnd]))
     = Inl Panic"
  by code_simp

text \<open>
  C10.  For a quantity in 1..2000 and an accepted response whose leading byte count equals
  the remaining payload length, \<^verbatim>\<open>ReadCoils\<close> and \<^verbatim>\<open>ReadDiscreteInputs\<close> return a slice exactly
  when \<open>quantity \<le> 8 * byteCount\<close>; when \<open>8 * byteCount < quantity\<close> the final slice
  expression \<^verbatim>\<open>[0:quantity]\<close> is out of bounds and the call panics instead of returning an
  error.
\<close>

theorem read_bits_panics_iff_bit_field_short:
  assumes "1 \<le> quantity" and "quantity \<le> 2000"
    and "unat (Data response ! 0) = length (Data response) - 1"
  shows "(ClientHandler_transceive c
            \<lparr>FunctionCode = 0x01,
             Data = [ucast (drop_bit 8 address), ucast address,
                     ucast (drop_bit 8 quantity), ucast quantity]\<rparr> t
          = (Inr response, t')
          \<longrightarrow> (ClientHandler_ReadCoils c address quantity t = (Inl Panic, t')
                 \<longleftrightarrow> 8 * unat (Data response ! 0) < unat quantity)
              \<and> ((\<exists>coils. ClientHandler_ReadCoils c address quantity t = (Inr coils, t'))
                 \<longleftrightarrow> unat quantity \<le> 8 * unat (Data response ! 0)))
       \<and> (ClientHandler_transceive c
            \<lparr>FunctionCode = 0x02,
             Data = [ucast (drop_bit 8 address), ucast address,
                     ucast (drop_bit 8 quantity), ucast quantity]\<rparr> t
          = (Inr response, t')
          \<longrightarrow> (ClientHandler_ReadDiscreteInputs c address quantity t = (Inl Panic, t')
                 \<longleftrightarrow> 8 * unat (Data response ! 0) < unat quantity)
              \<and> ((\<exists>inputs. ClientHandler_ReadDiscreteInputs c address quantity t
                            = (Inr inputs, t'))
                 \<longleftrightarrow> unat quantity \<le> 8 * unat (Data response ! 0)))"
proof (intro conjI impI)
  {
    assume tr: "ClientHandler_transceive c
            \<lparr>FunctionCode = 0x01,
             Data = [ucast (drop_bit 8 address), ucast address,
                     ucast (drop_bit 8 quantity), ucast quantity]\<rparr> t
          = (Inr response, t')"
    note run = ReadCoils_accepted [OF tr assms]
    show "ClientHandler_ReadCoils c address quantity t = (Inl Panic, t')
                 \<longleftrightarrow> 8 * unat (Data response ! 0) < unat quantity"
      unfolding run assms(3) by simp
    show "(\<exists>coils. ClientHandler_ReadCoils c address quantity t = (Inr coils, t'))
                 \<longleftrightarrow> unat quantity \<le> 8 * unat (Data response ! 0)"
      unfolding run assms(3) by (simp add: not_less)
  next
    assume tr: "ClientHandler_transceive c
            \<lparr>FunctionCode = 0x02,
             Data = [ucast (drop_bit 8 address), ucast address,
                     ucast (drop_bit 8 quantity), ucast quantity]\<rparr> t
          = (Inr response, t')"
    note run = ReadDiscreteInputs_accepted [OF tr assms]
    show "ClientHandler_ReadDiscreteInputs c address quantity t = (Inl Panic, t')
                 \<longleftrightarrow> 8 * unat (Data response ! 0) < unat quantity"
      unfolding run assms(3) by simp
    show "(\<exists>inputs. ClientHandler_ReadDiscreteInputs c address quantity t = (Inr inputs, t'))
                 \<longleftrightarrow> unat quantity \<le> 8 * unat (Data response ! 0)"
      unfolding run assms(3) by (simp add: not_less)
  }
qed


text \<open>
  The theorem on the mock: nine coils (and nine inputs) requested, one byte of bits in the
  reply.
\<close>

theorem read_bits_panic_witness:
  "(1 :: uint16) \<le> 9 \<and> (9 :: uint16) \<le> 2000
   \<and> unat ([0x01, 0xFF :: byte] ! 0) = length [0x01, 0xFF :: byte] - 1
   \<and> 8 * unat ([0x01, 0xFF :: byte] ! 0) < unat (9 :: uint16)
   \<and> ClientHandler_transceive mock_client
         \<lparr>FunctionCode = 0x01, Data = [0x00, 0x13, 0x00, 0x09]\<rparr>
         (mock_replies [bytes_of '':010101FFFE'' @ asciiEnd])
       = (Inr \<lparr>FunctionCode = 0x01, Data = [0x01, 0xFF]\<rparr>,
          \<lparr>mock_pending = [],
           mock_calls = [ConnectCall, SetReadTimeoutCall 5000000000,
                         WriteCall (bytes_of '':010100130009E2'' @ asciiEnd), ReadCall 513]\<rparr>)
   \<and> ClientHandler_ReadCoils mock_client 0x13 9
         (mock_replies [bytes_of '':010101FFFE'' @ asciiEnd])
       = (Inl Panic,
          \<lparr>mock_pending = [],
           mock_calls = [ConnectCall, SetReadTimeoutCall 5000000000,
                         WriteCall (bytes_of '':010100130009E2'' @ asciiEnd), ReadCall 513]\<rparr>)
   \<and> ClientHandler_transceive mock_client
         \<lparr>FunctionCode = 0x02, Data = [0x00, 0x13, 0x00, 0x09]\<rparr>
         (mock_replies [bytes_of '':010201FFFD'' @ asciiEnd])
       = (Inr \<lparr>FunctionCode = 0x02, Data = [0x01, 0xFF]\<rparr>,
          \<lparr>mock_pending = [],
           mock_calls = [ConnectCall, SetReadTimeoutCall 5000000000,
                         WriteCall (bytes_of '':010200130009E1'' @ asciiEnd), ReadCall 513]\<rparr>)
   \<and> ClientHandler_ReadDiscreteInputs mock_client 0x13 9
         (mock_replies [bytes_of '':010201FFFD'' @ asciiEnd])
       = (Inl Panic,
          \<lparr>mock_pending = [],
           mock_calls = [ConnectCall, SetReadTimeoutCall 5000000000,
                         WriteCall (bytes_of '':010200130009E1'' @ asciiEnd), ReadCall 513]\<rparr>)"
proof -
  let ?coils_reply = "mock_replies [bytes_of '':010101FFFE'' @ asciiEnd]"
  let ?inputs_reply = "mock_replies [bytes_of '':010201FFFD'' @ asciiEnd]"
  let ?tc = "\<lparr>mock_pending = [],
           mock_calls = [ConnectCall, SetReadTimeoutCall 5000000000,
                         WriteCall (bytes_of '':010100130009E2'' @ asciiEnd), ReadCall 513]\<rparr>"
  let ?ti = "\<lparr>mock_pending = [],
           mock_calls = [ConnectCall, SetReadTimeoutCall 5000000000,
                         WriteCall (bytes_of '':010200130009E1'' @ asciiEnd), ReadCall 513]\<rparr>"
  let ?rc = "\<lparr>FunctionCode = 0x01, Data = [0x01, 0xFF]\<rparr>"
  let ?ri = "\<lparr>FunctionCode = 0x02, Data = [0x01, 0xFF]\<rparr>"
  have h1: "(1 :: uint16) \<le> 9" and h2: "(9 :: uint16) \<le> 2000"
    by simp_all
  have h3c: "unat (Data ?rc ! 0) = length (Data ?rc) - 1"
    by simp
  have h3i: "unat (Data ?ri ! 0) = length (Data ?ri) - 1"
    by simp
  have short: "8 * unat ([0x01, 0xFF :: byte] ! 0) < unat (9 :: uint16)"
    by simp
  have trc: "ClientHandler_transceive mock_client
               \<lparr>FunctionCode = 0x01, Data = [0x00, 0x13, 0x00, 0x09]\<rparr> ?coils_reply
             = (Inr ?rc, ?tc)"
    by code_simp
  have tri: "ClientHandler_transceive mock_client
               \<lparr>FunctionCode = 0x02, Data = [0x00, 0x13, 0x00, 0x09]\<rparr> ?inputs_reply
             = (Inr ?ri, ?ti)"
    by code_simp
  from read_bits_panics_iff_bit_field_short
         [OF h1 h2 h3c, of mock_client "0x13" ?coils_reply ?tc] trc
  have pc: "ClientHandler_ReadCoils mock_client 0x13 9 ?coils_reply = (Inl Panic, ?tc)"
    by simp
  from read_bits_panics_iff_bit_field_short
         [OF h1 h2 h3i, of mock_client "0x13" ?inputs_reply ?ti] tri
  have pi: "ClientHandler_ReadDiscreteInputs mock_client 0x13 9 ?inputs_reply = (Inl Panic, ?ti)"
    by simp
  from h1 h2 short trc tri pc pi show ?thesis
    by simp
qed

end
